theory Spec2Isabelle
  imports Complex_Main
begin

section \<open>Conventions of the embedding\<close>

text \<open>
  The development embeds the market synchronisation and shock detection pipeline of
  QuantCalendar (the TypeScript modules \<^verbatim>\<open>shockDetector\<close>, \<^verbatim>\<open>normalize\<close> and
  \<^verbatim>\<open>marketUpdater\<close>) as HOL functions.

  \<^item> A JavaScript \<^verbatim>\<open>number\<close> that holds a probability, a volume or a delta is a
    \<^typ>\<open>real\<close>: the decimal value it was read from, which stands for the binary64 number
    nearest to it. The subtraction of two probabilities is the subtraction of binary64
    numbers (\<^verbatim>\<open>js_sub\<close> below: both operands and the result are rounded to nearest,
    ties to even), and the literals its result is compared with are binary64 numbers.
    Parsing, formatting and the other comparisons work on the decimal values. The result
    of a conversion that can fail (\<^verbatim>\<open>parseFloat\<close>, \<^verbatim>\<open>Number\<close>) is a \<^typ>\<open>real option\<close>
    whose \<^term>\<open>None\<close> is \<^verbatim>\<open>NaN\<close>.
  \<^item> \<^verbatim>\<open>Date.now()\<close> is an \<^typ>\<open>int\<close> of milliseconds, passed to every function
    that reads the clock; one invocation reads it once.
  \<^item> Module level mutable state (the array \<^verbatim>\<open>recentShocks\<close>, the document store) is
    passed in and returned.
\<close>

section \<open>Binary floating point\<close>

text \<open>
  A finite binary64 number is \<open>m * 2 ^ e\<close> with an integer \<open>\<bar>m\<bar> < 2 ^ 53\<close> and
  \<open>- 1074 \<le> e \<le> 971\<close>. The binade of a positive number \<open>x\<close> is the exponent \<open>k\<close> with
  \<open>2 ^ k \<le> x < 2 ^ (k + 1)\<close>, kept within the exponents \<open>- 1022\<close> to \<open>1023\<close> of the normal
  numbers: below \<open>2 ^ - 1022\<close> the numbers are subnormal and share the exponent of the
  smallest binade. The search goes up from \<open>0\<close> by halving and down from \<open>0\<close> by
  doubling.
\<close>

function binadeUp :: "int \<Rightarrow> real \<Rightarrow> int" where
  "binadeUp k x = (if x < 2 \<or> 1023 \<le> k then k else binadeUp (k + 1) (x / 2))"
  by pat_completeness auto
termination by (relation "measure (\<lambda>(k, x). nat (1023 - k))") auto

function binadeDown :: "int \<Rightarrow> real \<Rightarrow> int" where
  "binadeDown k x = (if 1 \<le> x \<or> k \<le> - 1022 then k else binadeDown (k - 1) (2 * x))"
  by pat_completeness auto
termination by (relation "measure (\<lambda>(k, x). nat (k + 1022))") auto

declare binadeUp.simps [simp del] binadeDown.simps [simp del]

definition binade :: "real \<Rightarrow> int" where
  "binade x = (if 1 \<le> x then binadeUp 0 x else binadeDown 0 x)"

text \<open>Rounding of a real number to the nearest integer, a tie going to the even one.\<close>

definition roundHalfEven :: "real \<Rightarrow> int" where
  "roundHalfEven q =
     (let f = \<lfloor>q\<rfloor>; r = q - of_int f in
      if r < 1 / 2 then f else if 1 / 2 < r then f + 1 else if even f then f else f + 1)"

text \<open>
  The binary64 number nearest to a real number, ties to even: the number is rounded to
  a multiple of the spacing \<open>2 ^ (k - 52)\<close> of the binary64 numbers of its binade \<open>k\<close>.
  This is how a decimal literal is read and how the exact result of an arithmetic
  operation is rounded. Magnitudes from \<open>2 ^ 1024 - 2 ^ 970\<close> on, which round to
  \<^verbatim>\<open>Infinity\<close>, are outside the model.
\<close>

definition binary64 :: "real \<Rightarrow> real" where
  "binary64 x =
     (let e = binade \<bar>x\<bar> - 52
      in sgn x * of_int (roundHalfEven (\<bar>x\<bar> / 2 powi e)) * 2 powi e)"

text \<open>\<^verbatim>\<open>a - b\<close> on two numbers.\<close>

definition js_sub :: "real \<Rightarrow> real \<Rightarrow> real" where
  "js_sub a b = binary64 (binary64 a - binary64 b)"

section \<open>Shock detector (shockDetector.ts)\<close>

record MarketShock =
  marketId :: string
  previousProbability :: real
  newProbability :: real
  delta :: real
  timestamp :: int

record MarketShockAlert =
  alert_id :: string
  shockCount :: nat
  windowStart :: int
  windowEnd :: int
  shocks :: "MarketShock list"
  createdAt :: int

definition SHOCK_THRESHOLD :: real where
  "SHOCK_THRESHOLD = binary64 0.05"

definition SHOCK_COUNT_THRESHOLD :: nat where
  "SHOCK_COUNT_THRESHOLD = 5"

definition SHOCK_WINDOW_MS :: int where
  "SHOCK_WINDOW_MS = 15 * 60 * 1000"

text \<open>
  The loop \<^verbatim>\<open>while (recentShocks.length > 0 && recentShocks[0].timestamp < cutoff)
  recentShocks.shift()\<close>, shared by \<^verbatim>\<open>detectShock\<close> and \<^verbatim>\<open>cleanupOldShocks\<close>.
\<close>

fun shiftOld :: "int \<Rightarrow> MarketShock list \<Rightarrow> MarketShock list" where
  "shiftOld cutoff [] = []"
| "shiftOld cutoff (s # ss) = (if timestamp s < cutoff then shiftOld cutoff ss else s # ss)"

text \<open>
  \<^verbatim>\<open>detectShock(marketId, previousProbability, newProbability)\<close>: the result is the
  returned shock (\<^term>\<open>None\<close> for \<^verbatim>\<open>null\<close>) and the array after the call. The delta is
  \<^verbatim>\<open>Math.abs(newProbability - previousProbability)\<close>, a binary64 subtraction.
\<close>

definition detectShock ::
  "int \<Rightarrow> string \<Rightarrow> real \<Rightarrow> real \<Rightarrow> MarketShock list \<Rightarrow> MarketShock option \<times> MarketShock list"
where
  "detectShock now mid prev new recentShocks =
     (let d = \<bar>js_sub new prev\<bar> in
      if d \<ge> SHOCK_THRESHOLD then
        (let shock = \<lparr>marketId = mid, previousProbability = prev, newProbability = new,
                       delta = d, timestamp = now\<rparr>;
             pushed = recentShocks @ [shock];
             cutoff = now - SHOCK_WINDOW_MS
         in (Some shock, shiftOld cutoff pushed))
      else (None, recentShocks))"

text \<open>Decimal rendering of the clock value inside the template string of the alert id.\<close>

fun string_of_nat :: "nat \<Rightarrow> string" where
  "string_of_nat n =
     (if n < 10 then [''0123456789'' ! n]
      else string_of_nat (n div 10) @ [''0123456789'' ! (n mod 10)])"

declare string_of_nat.simps [simp del]

definition string_of_int :: "int \<Rightarrow> string" where
  "string_of_int i = (if i < 0 then CHR ''-'' # string_of_nat (nat (- i)) else string_of_nat (nat i))"

text \<open>The per market tally that \<^verbatim>\<open>checkShockAlert\<close> builds in a local \<^verbatim>\<open>Map\<close>.\<close>

definition countShock :: "(string \<rightharpoonup> nat) \<Rightarrow> MarketShock \<Rightarrow> (string \<rightharpoonup> nat)" where
  "countShock m s = m(marketId s \<mapsto> (case m (marketId s) of None \<Rightarrow> 0 | Some c \<Rightarrow> c) + 1)"

definition inWindow :: "int \<Rightarrow> MarketShock \<Rightarrow> bool" where
  "inWindow start s = (timestamp s \<ge> start)"

text \<open>
  \<^verbatim>\<open>checkShockAlert()\<close>: the alert (or \<^term>\<open>None\<close>) and the array after the call;
  \<^verbatim>\<open>filter\<close> builds a new array, so the second component is the array as it was.
\<close>

definition checkShockAlert ::
  "int \<Rightarrow> MarketShock list \<Rightarrow> MarketShockAlert option \<times> MarketShock list"
where
  "checkShockAlert now recentShocks =
     (let start = now - SHOCK_WINDOW_MS;
          windowShocks = filter (inWindow start) recentShocks
      in if length windowShocks \<ge> SHOCK_COUNT_THRESHOLD then
           (let marketShockCounts = foldl countShock Map.empty windowShocks
            in (Some \<lparr>alert_id = ''shock-'' @ string_of_int now,
                       shockCount = length windowShocks,
                       windowStart = start,
                       windowEnd = now,
                       shocks = windowShocks,
                       createdAt = now\<rparr>, recentShocks))
         else (None, recentShocks))"

definition cleanupOldShocks :: "int \<Rightarrow> MarketShock list \<Rightarrow> MarketShock list" where
  "cleanupOldShocks now recentShocks = shiftOld (now - SHOCK_WINDOW_MS * 2) recentShocks"

text \<open>A call of one of the three exported functions, and a run of calls with the clock
  value each of them reads.\<close>

datatype shock_call =
    DetectShock string real real
  | CheckShockAlert
  | CleanupOldShocks

fun shock_step :: "MarketShock list \<Rightarrow> int \<times> shock_call \<Rightarrow> MarketShock list" where
  "shock_step st (now, DetectShock mid prev new) = snd (detectShock now mid prev new st)"
| "shock_step st (now, CheckShockAlert) = snd (checkShockAlert now st)"
| "shock_step st (now, CleanupOldShocks) = cleanupOldShocks now st"

definition shock_run :: "(int \<times> shock_call) list \<Rightarrow> MarketShock list \<Rightarrow> MarketShock list" where
  "shock_run calls st = foldl shock_step st calls"

text \<open>Oldest time stamp of a list of shocks (\<^term>\<open>None\<close> for the empty list).\<close>

fun oldestTimestamp :: "MarketShock list \<Rightarrow> int option" where
  "oldestTimestamp [] = None"
| "oldestTimestamp (s # ss) = Some (fold min (map timestamp ss) (timestamp s))"

section \<open>JavaScript built-ins used by the normaliser\<close>

text \<open>
  Strings are lists of ASCII characters. \<^verbatim>\<open>\s\<close> of a regular expression is modelled
  on ASCII: space, tab, line feed, vertical tab, form feed and carriage return.
\<close>

definition isSpace :: "char \<Rightarrow> bool" where
  "isSpace c = (c = CHR '' '' \<or> c = CHR 0x09 \<or> c = CHR 0x0A \<or> c = CHR 0x0B
                \<or> c = CHR 0x0C \<or> c = CHR 0x0D)"

definition isDigit :: "char \<Rightarrow> bool" where
  "isDigit c = (c \<in> set ''0123456789'')"

text \<open>The value of a decimal digit is its position in the string of the ten digits.\<close>

definition digitVal :: "char \<Rightarrow> nat" where
  "digitVal c = length (takeWhile (\<lambda>d. d \<noteq> c) ''0123456789'')"

definition digitsVal :: "string \<Rightarrow> nat" where
  "digitsVal ds = foldl (\<lambda>a c. 10 * a + digitVal c) 0 ds"

text \<open>The optional sign in front of a mantissa or an exponent: whether it is negative, and
  the rest of the string.\<close>

fun takeSign :: "string \<Rightarrow> bool \<times> string" where
  "takeSign [] = (False, [])"
| "takeSign (c # cs) =
     (if c = CHR ''-'' then (True, cs) else if c = CHR ''+'' then (False, cs) else (False, c # cs))"

text \<open>The exponent part \<^verbatim>\<open>e\<close>/\<^verbatim>\<open>E\<close>, sign, digits at the head of a string: its value and
  what follows it (0 and the string itself when there is none).\<close>

fun exponentPart :: "string \<Rightarrow> int \<times> string" where
  "exponentPart [] = (0, [])"
| "exponentPart (c # cs) =
     (if c = CHR ''e'' \<or> c = CHR ''E'' then
        (let (neg, r) = takeSign cs; ds = takeWhile isDigit r
         in if ds = [] then (0, c # cs)
            else (if neg then - int (digitsVal ds) else int (digitsVal ds), dropWhile isDigit r))
      else (0, c # cs))"

definition scale10 :: "int \<Rightarrow> real" where
  "scale10 e = (if e \<ge> 0 then 10 ^ nat e else 1 / 10 ^ nat (- e))"

text \<open>
  The longest prefix of a string that is a decimal literal (sign, digits, fraction,
  exponent): its value and the rest of the string, or \<^term>\<open>None\<close> when no prefix is one.
  The literal \<^verbatim>\<open>Infinity\<close> and the hexadecimal, octal and binary forms are not modelled.
\<close>

definition parseDecimal :: "string \<Rightarrow> (real \<times> string) option" where
  "parseDecimal s =
     (let (neg, s2) = takeSign s;
          ip = takeWhile isDigit s2;
          r1 = dropWhile isDigit s2;
          fp = (case r1 of [] \<Rightarrow> [] | c # r \<Rightarrow> if c = CHR ''.'' then takeWhile isDigit r else []);
          r2 = (case r1 of [] \<Rightarrow> [] | c # r \<Rightarrow> if c = CHR ''.'' then dropWhile isDigit r else r1)
      in if ip = [] \<and> fp = [] then None
         else Some ((if neg then - 1 else 1)
                    * (real (digitsVal ip) + real (digitsVal fp) / 10 ^ length fp)
                    * scale10 (fst (exponentPart r2)),
                    snd (exponentPart r2)))"

text \<open>\<^verbatim>\<open>parseFloat\<close>: leading white space is skipped and the longest prefix that is a
  decimal literal is read; \<^term>\<open>None\<close> is \<^verbatim>\<open>NaN\<close>.\<close>

definition parseFloat :: "string \<Rightarrow> real option" where
  "parseFloat s = map_option fst (parseDecimal (dropWhile isSpace s))"

text \<open>\<^verbatim>\<open>Number(s)\<close> of a string: white space around it is dropped, the empty string is 0,
  and the whole of what is left has to be a decimal literal.\<close>

definition trim :: "string \<Rightarrow> string" where
  "trim s = rev (dropWhile isSpace (rev (dropWhile isSpace s)))"

definition numberOfString :: "string \<Rightarrow> real option" where
  "numberOfString s =
     (if trim s = [] then Some 0
      else (case parseDecimal (trim s) of
              None \<Rightarrow> None
            | Some (v, rest) \<Rightarrow> if rest = [] then Some v else None))"

text \<open>\<^verbatim>\<open>x.toFixed(d)\<close> read back as a number (\<^verbatim>\<open>parseFloat\<close> or \<^verbatim>\<open>Number\<close> of the
  string): \<^term>\<open>x\<close> rounded to \<^term>\<open>d\<close> decimals, halves away from zero. The field
  \<^verbatim>\<open>Price\<close> of a normalised market holds this number for \<^verbatim>\<open>toFixed(2)\<close>.\<close>

definition toFixed :: "nat \<Rightarrow> real \<Rightarrow> real" where
  "toFixed d x = (if x < 0 then - (real_of_int \<lfloor>- x * 10 ^ d + 1 / 2\<rfloor> / 10 ^ d)
                  else real_of_int \<lfloor>x * 10 ^ d + 1 / 2\<rfloor> / 10 ^ d)"

text \<open>\<^verbatim>\<open>toLowerCase\<close> on ASCII letters.\<close>

definition lowerChar :: "char \<Rightarrow> char" where
  "lowerChar c =
     (case List.find (\<lambda>p. fst p = c) (zip ''ABCDEFGHIJKLMNOPQRSTUVWXYZ'' ''abcdefghijklmnopqrstuvwxyz'')
      of None \<Rightarrow> c | Some p \<Rightarrow> snd p)"

text \<open>\<^verbatim>\<open>replace(/\s+/g, '_')\<close>: every maximal run of white space becomes one underscore.\<close>

fun collapseRun :: "bool \<Rightarrow> string \<Rightarrow> string" where
  "collapseRun inRun [] = []"
| "collapseRun inRun (c # cs) =
     (if isSpace c then (if inRun then collapseRun True cs else CHR ''_'' # collapseRun True cs)
      else c # collapseRun False cs)"

definition collapseSpaces :: "string \<Rightarrow> string" where
  "collapseSpaces s = collapseRun False s"

text \<open>\<^verbatim>\<open>join(sep)\<close> and \<^verbatim>\<open>split(sep)\<close> with a one character separator.\<close>

fun joinWith :: "char \<Rightarrow> string list \<Rightarrow> string" where
  "joinWith sep [] = []"
| "joinWith sep [x] = x"
| "joinWith sep (x # y # ys) = x @ sep # joinWith sep (y # ys)"

fun splitOn :: "char \<Rightarrow> string \<Rightarrow> string list" where
  "splitOn sep [] = [[]]"
| "splitOn sep (c # cs) =
     (if c = sep then [] # splitOn sep cs
      else (case splitOn sep cs of [] \<Rightarrow> [[c]] | w # ws \<Rightarrow> (c # w) # ws))"

section \<open>Upstream data and the event normaliser (types.ts, normalize.ts)\<close>

text \<open>
  A \<^verbatim>\<open>volume\<close> is a number or a string. An optional field is an \<^typ>\<open>'a option\<close>
  (\<^term>\<open>None\<close> for \<^verbatim>\<open>undefined\<close>); the optional flags \<^verbatim>\<open>closed\<close> and \<^verbatim>\<open>resolved\<close> are
  read only for their truthiness and are booleans.
\<close>

datatype volume = VNum real | VStr string

record Tag =
  slug :: "string option"
  label :: "string option"

record GammaMarket =
  gm_id :: "string option"
  gm_question :: "string option"
  gm_volume :: "volume option"
  endDate :: "string option"
  yesPrice :: "real option"
  gm_closed :: bool
  gm_resolved :: bool

record GammaEvent =
  ev_id :: "string option"
  ev_title :: "string option"
  ev_tags :: "Tag list option"
  markets :: "GammaMarket list option"

text \<open>A normalised market. The revision of the normaliser that filters by liquidity
  emits no \<^verbatim>\<open>marketId\<close>; there the field is \<^term>\<open>None\<close>.\<close>

record NormalizedMarket =
  nm_marketId :: "string option"
  Catalyst_Name :: string
  Question :: string
  Price :: real
  Volume :: volume
  EndDate :: string
  Tags :: string

text \<open>\<^verbatim>\<open>s || ''\<close> on an optional string, and \<^verbatim>\<open>xs || []\<close> on an optional array.\<close>

definition strOrEmpty :: "string option \<Rightarrow> string" where
  "strOrEmpty s = (case s of None \<Rightarrow> [] | Some t \<Rightarrow> t)"

definition listOrEmpty :: "'a list option \<Rightarrow> 'a list" where
  "listOrEmpty xs = (case xs of None \<Rightarrow> [] | Some ys \<Rightarrow> ys)"

text \<open>\<^verbatim>\<open>t.slug || t.label\<close>, then \<^verbatim>\<open>filter(Boolean)\<close>: the empty string is falsy.\<close>

definition tagName :: "Tag \<Rightarrow> string" where
  "tagName t = (if strOrEmpty (slug t) \<noteq> [] then strOrEmpty (slug t) else strOrEmpty (label t))"

definition tagsToString :: "Tag list \<Rightarrow> string" where
  "tagsToString tgs =
     joinWith (CHR ''|'')
       (map (\<lambda>t. collapseSpaces (map lowerChar t))
          (filter (\<lambda>t. t \<noteq> []) (map tagName tgs)))"

text \<open>\<^verbatim>\<open>volume.replace(/[,$\s]/g, '')\<close>.\<close>

definition stripVolume :: "string \<Rightarrow> string" where
  "stripVolume s = filter (\<lambda>c. c \<noteq> CHR '','' \<and> c \<noteq> CHR ''$'' \<and> \<not> isSpace c) s"

text \<open>
  The volume as the filter and the comparator read it:
  \<^verbatim>\<open>typeof v === 'string' ? parseFloat(v.replace(/[,$\s]/g, '')) : Number(v) || 0\<close>.
  The conditional binds weaker than \<^verbatim>\<open>||\<close>, so only the number branch falls back
  to 0; the string branch returns what \<^verbatim>\<open>parseFloat\<close> returns, \<^verbatim>\<open>NaN\<close> included.
\<close>

fun volumeOf :: "volume option \<Rightarrow> real option" where
  "volumeOf (Some (VStr s)) = parseFloat (stripVolume s)"
| "volumeOf (Some (VNum x)) = Some x"
| "volumeOf None = Some 0"

text \<open>\<^verbatim>\<open>a < b\<close> where \<^verbatim>\<open>a\<close> may be \<^verbatim>\<open>NaN\<close>: every comparison with \<^verbatim>\<open>NaN\<close> is false.\<close>

fun js_less :: "real option \<Rightarrow> real \<Rightarrow> bool" where
  "js_less None y = False"
| "js_less (Some x) y = (x < y)"

text \<open>\<^verbatim>\<open>Number(market.yesPrice) || 0\<close>.\<close>

definition priceOrZero :: "real option \<Rightarrow> real" where
  "priceOrZero p = (case p of None \<Rightarrow> 0 | Some x \<Rightarrow> x)"

text \<open>The predicate given to \<^verbatim>\<open>markets.filter\<close>, with its four early returns in the
  order of the source.\<close>

definition keepMarket :: "string set \<Rightarrow> GammaMarket \<Rightarrow> bool" where
  "keepMarket existingMarketIds market =
     (if js_less (volumeOf (gm_volume market)) 20000 then False
      else if gm_closed market \<or> gm_resolved market then False
      else if priceOrZero (yesPrice market) \<le> 0.01 \<or> priceOrZero (yesPrice market) \<ge> 0.99 then False
      else if strOrEmpty (gm_id market) = [] \<or> strOrEmpty (gm_id market) \<notin> existingMarketIds then False
      else True)"

text \<open>
  The comparator given to \<^verbatim>\<open>sort\<close>: \<^verbatim>\<open>volB - volA\<close>; a \<^verbatim>\<open>NaN\<close> result counts as 0.
\<close>

definition volCompare :: "GammaMarket \<Rightarrow> GammaMarket \<Rightarrow> real" where
  "volCompare a b =
     (case (volumeOf (gm_volume a), volumeOf (gm_volume b)) of
        (Some va, Some vb) \<Rightarrow> vb - va
      | _ \<Rightarrow> 0)"

text \<open>
  \<^verbatim>\<open>Array.prototype.sort\<close> with a comparator: a stable sort, here by insertion. An
  element goes behind the elements it compares greater than. The language fixes the
  result only for a consistent comparator; \<^term>\<open>volCompare\<close> is one when every volume
  is a number.
\<close>

fun insertBy :: "('a \<Rightarrow> 'a \<Rightarrow> real) \<Rightarrow> 'a \<Rightarrow> 'a list \<Rightarrow> 'a list" where
  "insertBy cmp x [] = [x]"
| "insertBy cmp x (y # ys) = (if cmp x y > 0 then y # insertBy cmp x ys else x # y # ys)"

definition sortBy :: "('a \<Rightarrow> 'a \<Rightarrow> real) \<Rightarrow> 'a list \<Rightarrow> 'a list" where
  "sortBy cmp xs = foldr (insertBy cmp) xs []"

text \<open>\<^verbatim>\<open>market.volume || 0\<close>: 0, the empty string and \<^verbatim>\<open>undefined\<close> are falsy.\<close>

fun volumeOrZero :: "volume option \<Rightarrow> volume" where
  "volumeOrZero None = VNum 0"
| "volumeOrZero (Some (VNum x)) = VNum x"
| "volumeOrZero (Some (VStr s)) = (if s = [] then VNum 0 else VStr s)"

text \<open>The markets that pass the filter, sorted and cut to five
  (\<^verbatim>\<open>filter(...).sort(...).slice(0, 5)\<close>).\<close>

definition validMarkets :: "string set \<Rightarrow> GammaMarket list \<Rightarrow> GammaMarket list" where
  "validMarkets existingMarketIds ms = take 5 (sortBy volCompare (filter (keepMarket existingMarketIds) ms))"

text \<open>
  \<^verbatim>\<open>normalizeGammaEvent\<close>, the revision that applies the mandatory filters. (A further
  revision takes a missing event title from the first market's question; its filter,
  sort and cut are the ones above.)
\<close>

definition normalizeGammaEvent :: "GammaEvent \<Rightarrow> string set \<Rightarrow> NormalizedMarket list" where
  "normalizeGammaEvent event existingMarketIds =
     (let eventTitle = strOrEmpty (ev_title event) in
      if eventTitle = [] then []
      else
        (let tagsString = tagsToString (listOrEmpty (ev_tags event));
             valid = validMarkets existingMarketIds (listOrEmpty (markets event))
         in map (\<lambda>market.
                  \<lparr>nm_marketId = None,
                   Catalyst_Name = eventTitle,
                   Question = strOrEmpty (gm_question market),
                   Price = toFixed 2 (priceOrZero (yesPrice market)),
                   Volume = volumeOrZero (gm_volume market),
                   EndDate = strOrEmpty (endDate market),
                   Tags = tagsString\<rparr>) valid))"

text \<open>
  \<^verbatim>\<open>normalizeGammaEvent\<close>, the revision that matches by id: it keeps a market whose
  id is known and whose price is a number in \<^verbatim>\<open>[0, 1]\<close>, and normalises the volume.
\<close>

fun normalizeVolume :: "volume option \<Rightarrow> volume" where
  "normalizeVolume None = VNum 0"
| "normalizeVolume (Some (VNum x)) = VNum x"
| "normalizeVolume (Some (VStr s)) =
     (if s = [] then VNum 0
      else (case parseFloat (stripVolume s) of None \<Rightarrow> VStr s | Some x \<Rightarrow> VNum x))"

definition normalizeMarketById :: "string \<Rightarrow> string \<Rightarrow> string set \<Rightarrow> GammaMarket \<Rightarrow> NormalizedMarket option"
where
  "normalizeMarketById eventTitle tagsString existingMarketIds market =
     (let mid = strOrEmpty (gm_id market) in
      if mid = [] \<or> mid \<notin> existingMarketIds then None
      else (case yesPrice market of
              None \<Rightarrow> None
            | Some p \<Rightarrow>
                if p < 0 \<or> p > 1 then None
                else Some \<lparr>nm_marketId = Some mid,
                           Catalyst_Name = eventTitle,
                           Question = strOrEmpty (gm_question market),
                           Price = toFixed 2 p,
                           Volume = normalizeVolume (gm_volume market),
                           EndDate = strOrEmpty (endDate market),
                           Tags = tagsString\<rparr>))"

definition normalizeGammaEventById :: "GammaEvent \<Rightarrow> string set \<Rightarrow> NormalizedMarket list" where
  "normalizeGammaEventById event existingMarketIds =
     (let eventTitle = strOrEmpty (ev_title event) in
      if eventTitle = [] then []
      else
        (let tagsString = tagsToString (listOrEmpty (ev_tags event))
         in List.map_filter (normalizeMarketById eventTitle tagsString existingMarketIds)
              (listOrEmpty (markets event))))"

section \<open>Persisted market records and the single record update (marketUpdater.ts)\<close>

datatype market_source = N8n | Manual

text \<open>
  \<^verbatim>\<open>MarketData\<close> of the application, with the fields the revisions of the updater read
  from a document beyond the declared ones: the external ids \<^verbatim>\<open>gammaMarketId\<close>,
  \<^verbatim>\<open>MarketID\<close>, \<^verbatim>\<open>marketId\<close> and \<^verbatim>\<open>MarketId\<close>, and the dates \<^verbatim>\<open>endDate\<close> and
  \<^verbatim>\<open>EndDate\<close>. \<^verbatim>\<open>id\<close> is also the key of the document in the collection.
\<close>

record MarketData =
  md_id :: string
  title :: string
  resolveDate :: string
  probability :: real
  md_previousProbability :: "real option"
  changeDelta :: "real option"
  lastUpdated :: int
  source :: market_source
  catalyst :: "string option"
  question :: "string option"
  volume :: "volume option"
  tags :: "string list option"
  gammaMarketId :: "string option"
  ext_MarketID :: "string option"
  ext_marketId :: "string option"
  ext_MarketId :: "string option"
  md_endDate :: "string option"
  md_EndDate :: "string option"

text \<open>
  The process state a reconciliation cycle works on: the module level array of the
  shock detector, the documents of the \<^verbatim>\<open>markets\<close> collection and those of the
  \<^verbatim>\<open>marketShockAlerts\<close> collection.
\<close>

record state =
  recentShocks :: "MarketShock list"
  docs :: "MarketData list"
  shockAlerts :: "MarketShockAlert list"

text \<open>
  What the outside world does during one cycle: whether the storage handle can be
  obtained, whether each of the two collection queries succeeds, the array that
  \<^verbatim>\<open>fetchGammaMarkets\<close> returns (itself never throwing; an entry on which
  \<^verbatim>\<open>normalizeGammaEvent\<close> raises a \<^verbatim>\<open>TypeError\<close>, such as \<^verbatim>\<open>null\<close>, is a \<^term>\<open>NullItem\<close>),
  the documents whose write is rejected, and whether the write of an alert succeeds.
\<close>

datatype raw_event = NullItem | EventItem GammaEvent

record env =
  dbOk :: bool
  idsQueryOk :: bool
  marketsQueryOk :: bool
  gammaEvents :: "raw_event list"
  failingDocs :: "string set"
  alertWriteOk :: bool

text \<open>\<^verbatim>\<open>doc(id).set(data, {merge: true})\<close> with data that carries every field: the
  document becomes the data, and is created when it does not exist.\<close>

definition setDoc :: "MarketData \<Rightarrow> MarketData list \<Rightarrow> MarketData list" where
  "setDoc d ds =
     (if list_ex (\<lambda>x. md_id x = md_id d) ds
      then map (\<lambda>x. if md_id x = md_id d then d else x) ds
      else ds @ [d])"

text \<open>\<^verbatim>\<open>doc(id).update(fields)\<close>: changes the given fields of an existing document and
  is rejected (\<^term>\<open>None\<close>) when there is none.\<close>

definition updateDoc :: "string \<Rightarrow> (MarketData \<Rightarrow> MarketData) \<Rightarrow> MarketData list \<Rightarrow> MarketData list option"
where
  "updateDoc i f ds =
     (if list_ex (\<lambda>x. md_id x = i) ds
      then Some (map (\<lambda>x. if md_id x = i then f x else x) ds)
      else None)"

definition getDoc :: "string \<Rightarrow> MarketData list \<Rightarrow> MarketData option" where
  "getDoc i ds = List.find (\<lambda>x. md_id x = i) ds"

text \<open>
  The object \<^verbatim>\<open>{ ...existingMarket, ...updateData }\<close> that \<^verbatim>\<open>updateMarket\<close> of
  marketUpdater.ts writes. \<^verbatim>\<open>parseFloat(normalized.Price)\<close> is \<^term>\<open>Price normalized\<close>;
  \<^verbatim>\<open>existingMarket.probability || 0\<close> is the probability itself.
\<close>

definition mergedUpdate :: "int \<Rightarrow> NormalizedMarket \<Rightarrow> MarketData \<Rightarrow> MarketData" where
  "mergedUpdate now normalized existingMarket =
     existingMarket
       \<lparr>probability := Price normalized,
        lastUpdated := now,
        title := (if Question normalized \<noteq> [] then Question normalized else title existingMarket),
        catalyst := (if Catalyst_Name normalized \<noteq> [] then Some (Catalyst_Name normalized)
                     else catalyst existingMarket),
        question := (if Question normalized \<noteq> [] then Some (Question normalized)
                     else question existingMarket),
        volume := Some (Volume normalized),
        resolveDate := (if EndDate normalized \<noteq> [] then EndDate normalized
                        else resolveDate existingMarket),
        tags := (if Tags normalized \<noteq> [] then Some (splitOn (CHR ''|'') (Tags normalized))
                 else tags existingMarket),
        md_previousProbability := Some (probability existingMarket),
        changeDelta := Some (js_sub (Price normalized) (probability existingMarket))\<rparr>"

text \<open>
  \<^verbatim>\<open>updateMarket(marketId, normalized, existingMarket)\<close> of marketUpdater.ts: the shock
  detector runs first, then the document is written; any exception gives \<^verbatim>\<open>false\<close>.
\<close>

definition updateMarket ::
  "env \<Rightarrow> int \<Rightarrow> string \<Rightarrow> NormalizedMarket \<Rightarrow> MarketData \<Rightarrow> state \<Rightarrow> bool \<times> state"
where
  "updateMarket e now mid normalized existingMarket st =
     (let newProbability = Price normalized;
          previousProbability = probability existingMarket;
          st1 = st\<lparr>recentShocks :=
                   snd (detectShock now mid previousProbability newProbability (recentShocks st))\<rparr>
      in if \<not> dbOk e then (False, st1)
         else if md_id existingMarket \<in> failingDocs e then (False, st1)
         else (True, st1\<lparr>docs := setDoc (mergedUpdate now normalized existingMarket) (docs st1)\<rparr>))"

text \<open>
  The revision of \<^verbatim>\<open>updateMarket\<close> that calls \<^verbatim>\<open>update\<close> with the four price fields
  only (\<^verbatim>\<open>probability\<close>, \<^verbatim>\<open>lastUpdated\<close>, \<^verbatim>\<open>previousProbability\<close>, \<^verbatim>\<open>changeDelta\<close>).
\<close>

definition priceFields :: "int \<Rightarrow> NormalizedMarket \<Rightarrow> MarketData \<Rightarrow> MarketData \<Rightarrow> MarketData" where
  "priceFields now normalized existingMarket stored =
     stored
       \<lparr>probability := Price normalized,
        lastUpdated := now,
        md_previousProbability := Some (probability existingMarket),
        changeDelta := Some (js_sub (Price normalized) (probability existingMarket))\<rparr>"

definition updateMarketPriceOnly ::
  "env \<Rightarrow> int \<Rightarrow> string \<Rightarrow> NormalizedMarket \<Rightarrow> MarketData \<Rightarrow> state \<Rightarrow> bool \<times> state"
where
  "updateMarketPriceOnly e now mid normalized existingMarket st =
     (let newProbability = Price normalized;
          previousProbability = probability existingMarket;
          st1 = st\<lparr>recentShocks :=
                   snd (detectShock now mid previousProbability newProbability (recentShocks st))\<rparr>
      in if \<not> dbOk e then (False, st1)
         else if md_id existingMarket \<in> failingDocs e then (False, st1)
         else (case updateDoc (md_id existingMarket) (priceFields now normalized existingMarket) (docs st1) of
                 None \<Rightarrow> (False, st1)
               | Some ds \<Rightarrow> (True, st1\<lparr>docs := ds\<rparr>)))"

text \<open>
  The change tracking of the import handler of the user interface (\<^verbatim>\<open>handleImportN8n\<close>):
  the values it stores in \<^verbatim>\<open>previousProbability\<close> and \<^verbatim>\<open>changeDelta\<close> for an imported
  probability, given the record already held for the same id, if any.
\<close>

definition importChangeTracking :: "MarketData option \<Rightarrow> real \<Rightarrow> real option \<times> real" where
  "importChangeTracking existingMarket newProb =
     (case existingMarket of
        None \<Rightarrow> (None, toFixed 4 0)
      | Some em \<Rightarrow>
          (let d = js_sub newProb (probability em) in
           if \<bar>d\<bar> > binary64 0.001 then (Some (probability em), toFixed 4 d)
           else (md_previousProbability em,
                 toFixed 4 (case changeDelta em of None \<Rightarrow> 0 | Some c \<Rightarrow> c))))"

section \<open>The reconciliation cycle (updateMarkets of marketUpdater.ts)\<close>

record result =
  res_updated :: nat
  res_errors :: nat
  res_shocks :: nat

text \<open>How a block of statements ends: normally, or by an exception that propagates.\<close>

datatype completion = Normal | Throw

text \<open>
  \<^verbatim>\<open>getExistingMarketIds\<close>: the ids found in the first 1000 documents, in the order
  they are added to the set. Every exception inside it is caught and leaves the set
  as it is, which is empty because the failing calls come before the loop.
\<close>

definition idsOfDoc :: "MarketData \<Rightarrow> string list" where
  "idsOfDoc d = (if md_id d \<noteq> [] then [md_id d] else [])
                @ (if strOrEmpty (gammaMarketId d) \<noteq> [] then [strOrEmpty (gammaMarketId d)] else [])"

definition getExistingMarketIds :: "env \<Rightarrow> state \<Rightarrow> string list" where
  "getExistingMarketIds e st =
     (if dbOk e \<and> idsQueryOk e then concat (map idsOfDoc (take 1000 (docs st))) else [])"

text \<open>\<^verbatim>\<open>existingMarkets.get(key)\<close> on the map filled from the snapshot by
  \<^verbatim>\<open>existingMarkets.set(data.id, data)\<close>: the last document with that id.\<close>

definition lookupMarket :: "MarketData list \<Rightarrow> string \<Rightarrow> MarketData option" where
  "lookupMarket snapshot k = List.find (\<lambda>d. md_id d = k) (rev snapshot)"

text \<open>The body of the inner loop over the normalised markets of one event.\<close>

definition processNormalized ::
  "env \<Rightarrow> int \<Rightarrow> MarketData list \<Rightarrow> result \<times> state \<Rightarrow> NormalizedMarket \<Rightarrow> result \<times> state"
where
  "processNormalized e now snapshot rs normalizedMarket =
     (case nm_marketId normalizedMarket of
        None \<Rightarrow> rs
      | Some k \<Rightarrow>
          (case lookupMarket snapshot k of
             None \<Rightarrow> rs
           | Some existingMarket \<Rightarrow>
               (let (ok, st') = updateMarket e now (md_id existingMarket) normalizedMarket
                                  existingMarket (snd rs);
                    r = fst rs
                in if ok then
                     (r\<lparr>res_updated := res_updated r + 1,
                        res_shocks := res_shocks r
                          + (if \<bar>js_sub (Price normalizedMarket) (probability existingMarket)\<bar> \<ge> binary64 0.05
                             then 1 else 0)\<rparr>, st')
                   else (r\<lparr>res_errors := res_errors r + 1\<rparr>, st'))))"

text \<open>The \<^verbatim>\<open>try\<close> block of the outer loop for one upstream entry, and the block with
  its \<^verbatim>\<open>catch\<close>, which counts one error.\<close>

definition processEvent_try ::
  "env \<Rightarrow> int \<Rightarrow> string set \<Rightarrow> MarketData list \<Rightarrow> result \<times> state \<Rightarrow> raw_event
     \<Rightarrow> completion \<times> result \<times> state"
where
  "processEvent_try e now ids snapshot rs gammaEvent =
     (case gammaEvent of
        NullItem \<Rightarrow> (Throw, rs)
      | EventItem ev \<Rightarrow>
          (Normal, foldl (processNormalized e now snapshot) rs (normalizeGammaEventById ev ids)))"

definition processEvent ::
  "env \<Rightarrow> int \<Rightarrow> string set \<Rightarrow> MarketData list \<Rightarrow> result \<times> state \<Rightarrow> raw_event \<Rightarrow> result \<times> state"
where
  "processEvent e now ids snapshot rs gammaEvent =
     (case processEvent_try e now ids snapshot rs gammaEvent of
        (Normal, rs') \<Rightarrow> rs'
      | (Throw, r, st') \<Rightarrow> (r\<lparr>res_errors := res_errors r + 1\<rparr>, st'))"

text \<open>\<^verbatim>\<open>alertRef.set(alert)\<close>: the document with the alert's id becomes the alert.\<close>

definition setAlert :: "MarketShockAlert \<Rightarrow> MarketShockAlert list \<Rightarrow> MarketShockAlert list" where
  "setAlert a as = filter (\<lambda>x. alert_id x \<noteq> alert_id a) as @ [a]"

text \<open>
  The \<^verbatim>\<open>try\<close> block of \<^verbatim>\<open>updateMarkets\<close>. The result object is mutated in place, so
  the counters reached so far come with either completion.
\<close>

definition updateMarkets_try :: "env \<Rightarrow> int \<Rightarrow> state \<Rightarrow> completion \<times> result \<times> state" where
  "updateMarkets_try e now st0 =
     (let r0 = \<lparr>res_updated = 0, res_errors = 0, res_shocks = 0\<rparr>;
          st1 = st0\<lparr>recentShocks := cleanupOldShocks now (recentShocks st0)\<rparr>;
          existingMarketIds = getExistingMarketIds e st1
      in if existingMarketIds = [] then (Normal, r0, st1)
         else if \<not> dbOk e then (Throw, r0, st1)
         else if \<not> marketsQueryOk e then (Throw, r0, st1)
         else if gammaEvents e = [] then (Normal, r0, st1)
         else
           (let (r, st2) = foldl (processEvent e now (set existingMarketIds) (docs st1))
                             (r0, st1) (gammaEvents e)
            in case fst (checkShockAlert now (recentShocks st2)) of
                 None \<Rightarrow> (Normal, r, st2)
               | Some alert \<Rightarrow>
                   if alertWriteOk e
                   then (Normal, r, st2\<lparr>shockAlerts := setAlert alert (shockAlerts st2)\<rparr>)
                   else (Throw, r, st2)))"

text \<open>\<^verbatim>\<open>updateMarkets\<close>: the block with its \<^verbatim>\<open>catch\<close>, which counts one error and
  returns the result object.\<close>

definition updateMarkets :: "env \<Rightarrow> int \<Rightarrow> state \<Rightarrow> completion \<times> result \<times> state" where
  "updateMarkets e now st0 =
     (case updateMarkets_try e now st0 of
        (Normal, r, st) \<Rightarrow> (Normal, r, st)
      | (Throw, r, st) \<Rightarrow> (Normal, r\<lparr>res_errors := res_errors r + 1\<rparr>, st))"

section \<open>The revision of the cycle that fetches by id and guards resolved records\<close>

subsection \<open>Dates\<close>

text \<open>
  The clock as the guard reads it: \<^verbatim>\<open>Date.now()\<close> in milliseconds, and the local calendar
  fields of the current time (\<^verbatim>\<open>getFullYear()\<close>, \<^verbatim>\<open>getMonth()\<close> counted from 0,
  \<^verbatim>\<open>getDate()\<close>).
\<close>

record clock =
  nowMs :: int
  nowYear :: int
  nowMonth :: int
  nowDate :: int

text \<open>The regular expression \<^verbatim>\<open>/^\d{4}-\d{2}-\d{2}$/\<close>.\<close>

definition isDateOnly :: "string \<Rightarrow> bool" where
  "isDateOnly s =
     (length s = 10 \<and> list_all isDigit (take 4 s) \<and> s ! 4 = CHR ''-''
      \<and> list_all isDigit (take 2 (drop 5 s)) \<and> s ! 7 = CHR ''-''
      \<and> list_all isDigit (drop 8 s))"

text \<open>
  The number of the calendar day that \<^verbatim>\<open>new Date(year, monthIndex, day)\<close> denotes in
  local time, counted in the proleptic Gregorian calendar: a month index outside 0 to 11
  carries into the year, a day outside the month carries into the following months, and
  a year from 0 to 99 means 1900 plus that year. Local midnight of a later day is a
  later instant, so two such dates compare as their day numbers do.
\<close>

definition isLeapYear :: "int \<Rightarrow> bool" where
  "isLeapYear y = (y mod 4 = 0 \<and> (y mod 100 \<noteq> 0 \<or> y mod 400 = 0))"

definition daysBeforeYear :: "int \<Rightarrow> int" where
  "daysBeforeYear y = 365 * (y - 1) + (y - 1) div 4 - (y - 1) div 100 + (y - 1) div 400"

definition daysBeforeMonth :: "int \<Rightarrow> nat \<Rightarrow> int" where
  "daysBeforeMonth y m =
     [0, 31, 59, 90, 120, 151, 181, 212, 243, 273, 304, 334] ! m
     + (if m \<ge> 2 \<and> isLeapYear y then 1 else 0)"

definition makeDay :: "int \<Rightarrow> int \<Rightarrow> int \<Rightarrow> int" where
  "makeDay y monthIndex d =
     (let ym = y + monthIndex div 12; mn = nat (monthIndex mod 12)
      in daysBeforeYear ym + daysBeforeMonth ym mn + (d - 1))"

definition localDay :: "int \<Rightarrow> int \<Rightarrow> int \<Rightarrow> int" where
  "localDay y monthIndex d = makeDay (if 0 \<le> y \<and> y \<le> 99 then 1900 + y else y) monthIndex d"

text \<open>
  \<^verbatim>\<open>isMarketResolved(endDate, resolveDate)\<close>. \<^verbatim>\<open>new Date(string)\<close> for a string with a
  time part or in another format is the platform's parser, a parameter of the model
  (\<^term>\<open>None\<close> for an invalid date). A time value beyond 8.64e15 ms is an invalid date.
\<close>

definition isMarketResolved ::
  "(string \<Rightarrow> int option) \<Rightarrow> clock \<Rightarrow> string option \<Rightarrow> string option \<Rightarrow> bool"
where
  "isMarketResolved dateParse clk endDateArg resolveDateArg =
     (let dateStr = (if strOrEmpty endDateArg \<noteq> [] then strOrEmpty endDateArg
                     else strOrEmpty resolveDateArg)
      in if dateStr = [] then False
         else if CHR ''T'' \<in> set dateStr then
           (case dateParse dateStr of None \<Rightarrow> False | Some t \<Rightarrow> t < nowMs clk)
         else if isDateOnly dateStr then
           localDay (int (digitsVal (take 4 dateStr)))
                    (int (digitsVal (take 2 (drop 5 dateStr))) - 1)
                    (int (digitsVal (drop 8 dateStr)))
             < localDay (nowYear clk) (nowMonth clk) (nowDate clk)
         else if list_all isDigit dateStr then
           (if int (digitsVal dateStr) > 8640000000000000 then False
            else int (digitsVal dateStr) < nowMs clk)
         else (case dateParse dateStr of None \<Rightarrow> False | Some t \<Rightarrow> t < nowMs clk))"

subsection \<open>Upstream markets fetched by id\<close>

text \<open>
  A market as this revision reads it: the declared fields and the undeclared ones it
  probes. A value that may be a number or a string has the type \<^typ>\<open>volume\<close>.
\<close>

record UpstreamMarket = GammaMarket +
  lastTradePrice :: "volume option"
  bestBid :: "volume option"
  price :: "volume option"
  yes_price :: "volume option"
  outcomePrices :: "volume list option"
  um_eventTitle :: "string option"
  um_title :: "string option"
  volumeUsd :: "volume option"
  end_date :: "string option"
  expirationDate :: "string option"
  endDateTimestamp :: "string option"
  um_eventTags :: "Tag list option"
  um_tags :: "Tag list option"

text \<open>\<^verbatim>\<open>Number(v)\<close> of a number or a string.\<close>

fun toNumber :: "volume \<Rightarrow> real option" where
  "toNumber (VNum x) = Some x"
| "toNumber (VStr s) = numberOfString s"

text \<open>The first of the probed price fields that is not \<^verbatim>\<open>undefined\<close>.\<close>

definition priceValue :: "UpstreamMarket \<Rightarrow> volume option" where
  "priceValue gm =
     (case lastTradePrice gm of Some v \<Rightarrow> Some v | None \<Rightarrow>
      (case bestBid gm of Some v \<Rightarrow> Some v | None \<Rightarrow>
       (case price gm of Some v \<Rightarrow> Some v | None \<Rightarrow>
        (case yesPrice gm of Some p \<Rightarrow> Some (VNum p) | None \<Rightarrow>
         (case yes_price gm of Some v \<Rightarrow> Some v | None \<Rightarrow>
          (case outcomePrices gm of Some (v # vs) \<Rightarrow> Some v | _ \<Rightarrow> None))))))"

definition validPrice :: "real option \<Rightarrow> bool" where
  "validPrice p = (case p of None \<Rightarrow> False | Some x \<Rightarrow> 0 \<le> x \<and> x \<le> 1)"

text \<open>Truthiness of a number or string, and the first truthy value of a chain of
  \<^verbatim>\<open>||\<close>.\<close>

fun truthyVolume :: "volume option \<Rightarrow> bool" where
  "truthyVolume None = False"
| "truthyVolume (Some (VNum x)) = (x \<noteq> 0)"
| "truthyVolume (Some (VStr s)) = (s \<noteq> [])"

fun firstVolume :: "volume option list \<Rightarrow> volume" where
  "firstVolume [] = VNum 0"
| "firstVolume (v # vs) = (if truthyVolume v then the v else firstVolume vs)"

fun firstString :: "string option list \<Rightarrow> string \<Rightarrow> string" where
  "firstString [] dflt = dflt"
| "firstString (s # ss) dflt = (if strOrEmpty s \<noteq> [] then strOrEmpty s else firstString ss dflt)"

text \<open>The normalised market this revision builds for a record and its upstream market,
  given the final price.\<close>

definition normalizedFor :: "string \<Rightarrow> UpstreamMarket \<Rightarrow> MarketData \<Rightarrow> real \<Rightarrow> NormalizedMarket" where
  "normalizedFor mid gm existingMarket finalPrice =
     \<lparr>nm_marketId = Some mid,
      Catalyst_Name = firstString [um_eventTitle gm, um_title gm, catalyst existingMarket,
                                   Some (title existingMarket)] ''Unknown Event'',
      Question = firstString [gm_question gm, question existingMarket,
                              Some (title existingMarket)] [],
      Price = toFixed 2 finalPrice,
      Volume = firstVolume [gm_volume gm, volumeUsd gm, volume existingMarket],
      EndDate = firstString [endDate gm, end_date gm, expirationDate gm, endDateTimestamp gm,
                             Some (resolveDate existingMarket)] [],
      Tags = (case um_eventTags gm of
                Some ts \<Rightarrow> tagsToString ts
              | None \<Rightarrow>
                  (case um_tags gm of
                     Some ts \<Rightarrow> tagsToString ts
                   | None \<Rightarrow> joinWith (CHR ''|'') (listOrEmpty (tags existingMarket))))\<rparr>"

subsection \<open>The cycle\<close>

text \<open>The external id of a document: for the id set \<^verbatim>\<open>MarketID || marketId || MarketId ||
  gammaMarketId\<close>, for the lookup map the first three only.\<close>

definition externalId :: "MarketData \<Rightarrow> string" where
  "externalId d = firstString [ext_MarketID d, ext_marketId d, ext_MarketId d] []"

definition externalIdOrGamma :: "MarketData \<Rightarrow> string" where
  "externalIdOrGamma d = firstString [ext_MarketID d, ext_marketId d, ext_MarketId d, gammaMarketId d] []"

text \<open>A \<^verbatim>\<open>Set\<close> keeps each value once, in the order of first insertion.\<close>

definition firstOccurrences :: "'a list \<Rightarrow> 'a list" where
  "firstOccurrences xs = rev (remdups (rev xs))"

definition getExistingMarketIdsById :: "env \<Rightarrow> state \<Rightarrow> string list" where
  "getExistingMarketIdsById e st =
     (if dbOk e \<and> idsQueryOk e
      then firstOccurrences (filter (\<lambda>k. k \<noteq> []) (map externalIdOrGamma (take 1000 (docs st))))
      else [])"

definition lookupByExternalId :: "MarketData list \<Rightarrow> string \<Rightarrow> MarketData option" where
  "lookupByExternalId snapshot k =
     List.find (\<lambda>d. externalId d \<noteq> [] \<and> externalId d = k) (rev snapshot)"

definition lookupUpstream :: "UpstreamMarket list \<Rightarrow> string \<Rightarrow> UpstreamMarket option" where
  "lookupUpstream gms k =
     List.find (\<lambda>m. strOrEmpty (gm_id m) \<noteq> [] \<and> strOrEmpty (gm_id m) = k) (rev gms)"

text \<open>The date the guard is given for a record:
  \<^verbatim>\<open>resolveDate || endDate || EndDate\<close>, and the record's \<^verbatim>\<open>resolveDate\<close>.\<close>

definition recordResolved :: "(string \<Rightarrow> int option) \<Rightarrow> clock \<Rightarrow> MarketData \<Rightarrow> bool" where
  "recordResolved dateParse clk d =
     isMarketResolved dateParse clk
       (Some (firstString [Some (resolveDate d), md_endDate d, md_EndDate d] []))
       (Some (resolveDate d))"

text \<open>The body of the loop over the known ids.\<close>

definition processMarketId ::
  "env \<Rightarrow> (string \<Rightarrow> int option) \<Rightarrow> clock \<Rightarrow> MarketData list \<Rightarrow> UpstreamMarket list
     \<Rightarrow> result \<times> state \<Rightarrow> string \<Rightarrow> result \<times> state"
where
  "processMarketId e dateParse clk snapshot gms rs mid =
     (case lookupByExternalId snapshot mid of
        None \<Rightarrow> rs
      | Some existingMarket \<Rightarrow>
          if md_id existingMarket = [] then rs
          else if recordResolved dateParse clk existingMarket then rs
          else
            (case lookupUpstream gms mid of
               None \<Rightarrow> rs
             | Some gm \<Rightarrow>
                 if gm_closed gm \<or> gm_resolved gm then rs
                 else
                   (let priceNum = (case priceValue gm of None \<Rightarrow> None | Some v \<Rightarrow> toNumber v)
                    in if \<not> validPrice priceNum \<and> \<not> validPrice (Some (probability existingMarket))
                       then rs
                       else
                         (let finalPrice = (if validPrice priceNum then the priceNum
                                            else probability existingMarket);
                              normalized = normalizedFor mid gm existingMarket finalPrice;
                              (ok, st') = updateMarketPriceOnly e (nowMs clk) (md_id existingMarket)
                                            normalized existingMarket (snd rs);
                              r = fst rs
                          in if ok then
                               (r\<lparr>res_updated := res_updated r + 1,
                                  res_shocks := res_shocks r
                                    + (if \<bar>js_sub (Price normalized) (probability existingMarket)\<bar> \<ge> binary64 0.05
                                       then 1 else 0)\<rparr>, st')
                             else (r\<lparr>res_errors := res_errors r + 1\<rparr>, st')))))"

definition updateMarketsById_try ::
  "env \<Rightarrow> UpstreamMarket list \<Rightarrow> (string \<Rightarrow> int option) \<Rightarrow> clock \<Rightarrow> state
     \<Rightarrow> completion \<times> result \<times> state"
where
  "updateMarketsById_try e gammaMarkets dateParse clk st0 =
     (let r0 = \<lparr>res_updated = 0, res_errors = 0, res_shocks = 0\<rparr>;
          st1 = st0\<lparr>recentShocks := cleanupOldShocks (nowMs clk) (recentShocks st0)\<rparr>;
          existingMarketIds = getExistingMarketIdsById e st1
      in if existingMarketIds = [] then (Normal, r0, st1)
         else if \<not> dbOk e then (Throw, r0, st1)
         else if \<not> marketsQueryOk e then (Throw, r0, st1)
         else if gammaMarkets = [] then (Normal, r0, st1)
         else
           (let (r, st2) = foldl (processMarketId e dateParse clk (docs st1) gammaMarkets)
                             (r0, st1) existingMarketIds
            in case fst (checkShockAlert (nowMs clk) (recentShocks st2)) of
                 None \<Rightarrow> (Normal, r, st2)
               | Some alert \<Rightarrow>
                   if alertWriteOk e
                   then (Normal, r, st2\<lparr>shockAlerts := setAlert alert (shockAlerts st2)\<rparr>)
                   else (Throw, r, st2)))"

definition updateMarketsById ::
  "env \<Rightarrow> UpstreamMarket list \<Rightarrow> (string \<Rightarrow> int option) \<Rightarrow> clock \<Rightarrow> state
     \<Rightarrow> completion \<times> result \<times> state"
where
  "updateMarketsById e gammaMarkets dateParse clk st0 =
     (case updateMarketsById_try e gammaMarkets dateParse clk st0 of
        (Normal, r, st) \<Rightarrow> (Normal, r, st)
      | (Throw, r, st) \<Rightarrow> (Normal, r\<lparr>res_errors := res_errors r + 1\<rparr>, st))"

section \<open>Notions used to state the properties\<close>

text \<open>Well-formedness of a retained shock (its delta is the absolute value of the
  difference that the subtraction of its two probabilities yields, and reaches the
  threshold), and the invariant of the retained list.\<close>

definition shock_ok :: "MarketShock \<Rightarrow> bool" where
  "shock_ok s = (delta s = \<bar>js_sub (newProbability s) (previousProbability s)\<bar>
                 \<and> delta s \<ge> SHOCK_THRESHOLD)"

definition shock_inv :: "MarketShock list \<Rightarrow> bool" where
  "shock_inv st = (list_all shock_ok st \<and> sorted (map timestamp st))"

definition bounded_by :: "int \<Rightarrow> MarketShock list \<Rightarrow> bool" where
  "bounded_by t st = list_all (\<lambda>s. timestamp s \<le> t) st"




text \<open>The descriptive fields and the price fields of a record.\<close>

definition descriptive ::
  "MarketData \<Rightarrow> string \<times> string option \<times> string option \<times> volume option \<times> string list option \<times> string"
where
  "descriptive d = (title d, question d, catalyst d, volume d, tags d, resolveDate d)"

definition priceTracking :: "MarketData \<Rightarrow> real \<times> real option \<times> real option \<times> int" where
  "priceTracking d = (probability d, md_previousProbability d, changeDelta d, lastUpdated d)"

text \<open>
  Whether the write of a record succeeds in a cycle, the record a normalised market is
  matched with, the records a cycle attempts to update (in order), and whether the
  cycle gets as far as its loop.
\<close>

definition writeSucceeds :: "env \<Rightarrow> MarketData \<Rightarrow> bool" where
  "writeSucceeds e d = (dbOk e \<and> md_id d \<notin> failingDocs e)"

definition writeFails :: "env \<Rightarrow> MarketData \<Rightarrow> bool" where
  "writeFails e d = (\<not> writeSucceeds e d)"

definition matchOf :: "MarketData list \<Rightarrow> NormalizedMarket \<Rightarrow> MarketData option" where
  "matchOf snapshot nm = (case nm_marketId nm of None \<Rightarrow> None | Some k \<Rightarrow> lookupMarket snapshot k)"

definition attemptsOf :: "MarketData list \<Rightarrow> NormalizedMarket list \<Rightarrow> MarketData list" where
  "attemptsOf snapshot nms = List.map_filter (matchOf snapshot) nms"

fun normalizedOf :: "string set \<Rightarrow> raw_event \<Rightarrow> NormalizedMarket list" where
  "normalizedOf ids NullItem = []"
| "normalizedOf ids (EventItem ev) = normalizeGammaEventById ev ids"

definition cycleAttempts :: "env \<Rightarrow> state \<Rightarrow> MarketData list" where
  "cycleAttempts e st =
     attemptsOf (docs st)
       (concat (map (normalizedOf (set (getExistingMarketIds e st))) (gammaEvents e)))"

definition loopReached :: "env \<Rightarrow> state \<Rightarrow> bool" where
  "loopReached e st = (getExistingMarketIds e st \<noteq> [] \<and> marketsQueryOk e)"

definition isNullItem :: "raw_event \<Rightarrow> bool" where
  "isNullItem x = (case x of NullItem \<Rightarrow> True | EventItem ev \<Rightarrow> False)"

section \<open>Concrete inputs\<close>

definition mkShock :: "string \<Rightarrow> int \<Rightarrow> MarketShock" where
  "mkShock mid t = \<lparr>marketId = mid, previousProbability = 0.40, newProbability = 0.46,
                    delta = 0.06, timestamp = t\<rparr>"


definition ex_calls :: "(int \<times> shock_call) list" where
  "ex_calls = [(0, DetectShock ''a'' 0.40 0.46), (100, DetectShock ''b'' 0.40 0.44),
               (200, CheckShockAlert), (600000, DetectShock ''c'' 0.90 0.10),
               (1000000, DetectShock ''d'' 0.50 0.60), (1000000, CleanupOldShocks)]"


definition exMarket :: "string \<Rightarrow> volume \<Rightarrow> real \<Rightarrow> GammaMarket" where
  "exMarket i v p = \<lparr>gm_id = Some i, gm_question = Some (''Q-'' @ i), gm_volume = Some v,
                     endDate = Some ''2026-12-31'', yesPrice = Some p,
                     gm_closed = False, gm_resolved = False\<rparr>"

definition exEvent :: "GammaMarket list \<Rightarrow> GammaEvent" where
  "exEvent ms = \<lparr>ev_id = Some ''e1'', ev_title = Some ''Fed decision'',
                 ev_tags = Some [\<lparr>slug = Some ''Macro Rates'', label = None\<rparr>],
                 markets = Some ms\<rparr>"



definition exDoc :: "string \<Rightarrow> string \<Rightarrow> real \<Rightarrow> MarketData" where
  "exDoc i rd p =
     \<lparr>md_id = i, title = ''Title '' @ i, resolveDate = rd, probability = p,
      md_previousProbability = Some 0.40, changeDelta = Some 0.10, lastUpdated = 1000,
      source = N8n, catalyst = Some ''Imported catalyst'',
      question = Some (''Imported question '' @ i), volume = Some (VStr ''$1,000,000''),
      tags = Some [''macro''], gammaMarketId = None, ext_MarketID = Some i,
      ext_marketId = None, ext_MarketId = None, md_endDate = None, md_EndDate = None\<rparr>"

definition exEnv :: "raw_event list \<Rightarrow> string set \<Rightarrow> env" where
  "exEnv evs failing =
     \<lparr>dbOk = True, idsQueryOk = True, marketsQueryOk = True, gammaEvents = evs,
      failingDocs = failing, alertWriteOk = True\<rparr>"

definition exState :: "MarketData list \<Rightarrow> state" where
  "exState ds = \<lparr>recentShocks = [], docs = ds, shockAlerts = []\<rparr>"

definition exNormalized :: "real \<Rightarrow> NormalizedMarket" where
  "exNormalized p =
     \<lparr>nm_marketId = Some ''m1'', Catalyst_Name = ''Fed decision'', Question = ''Q-m1'',
      Price = p, Volume = VNum 250000, EndDate = ''2026-12-31'', Tags = ''macro_rates|fed''\<rparr>"

text \<open>A record that resolved on 2026-01-01 and an upstream price for it; the cycle below
  runs at 2026-01-02 12:00 UTC (1767355200000 ms).\<close>

definition pastEnv :: env where
  "pastEnv = exEnv [EventItem (exEvent [exMarket ''m1'' (VNum 250000) 0.6])] {}"

definition pastState :: state where
  "pastState = exState [exDoc ''m1'' ''2026-01-01'' 0.5]"

text \<open>Five records matched by one upstream event; the write of the third is rejected.\<close>

definition fiveEnv :: env where
  "fiveEnv = exEnv [EventItem (exEvent [exMarket ''a'' (VNum 250000) 0.51,
                                        exMarket ''b'' (VNum 250000) 0.52,
                                        exMarket ''c'' (VNum 250000) 0.53,
                                        exMarket ''d'' (VNum 250000) 0.54,
                                        exMarket ''e'' (VNum 250000) 0.55])] {''c''}"

definition fiveState :: state where
  "fiveState = exState [exDoc ''a'' ''2026-06-30'' 0.5, exDoc ''b'' ''2026-06-30'' 0.5,
                        exDoc ''c'' ''2026-06-30'' 0.5, exDoc ''d'' ''2026-06-30'' 0.5,
                        exDoc ''e'' ''2026-06-30'' 0.5]"

text \<open>An upstream market fetched by id, with a last trade price and outcome prices.\<close>

definition exUpstream :: "string \<Rightarrow> volume \<Rightarrow> UpstreamMarket" where
  "exUpstream i p =
     \<lparr>gm_id = Some i, gm_question = Some (''Q-'' @ i), gm_volume = Some (VNum 250000),
      endDate = Some ''2026-12-31'', yesPrice = None, gm_closed = False, gm_resolved = False,
      lastTradePrice = Some p, bestBid = None, price = None, yes_price = None,
      outcomePrices = Some [VStr ''0.61'', VStr ''0.39''], um_eventTitle = None,
      um_title = None, volumeUsd = None, end_date = None, expirationDate = None,
      endDateTimestamp = None, um_eventTags = None, um_tags = None\<rparr>"

text \<open>2026-01-02 12:00 UTC, read in a time zone where that is 2 January.\<close>

definition exClock :: clock where
  "exClock = \<lparr>nowMs = 1767355200000, nowYear = 2026, nowMonth = 0, nowDate = 2\<rparr>"

text \<open>A date parser that knows one string, midnight UTC of 2026-01-01.\<close>

definition exDateParse :: "string \<Rightarrow> int option" where
  "exDateParse s = (if s = ''2026-01-01T00:00:00Z'' then Some 1767225600000 else None)"

text \<open>Three records, resolving yesterday, today, and at an instant of yesterday, and an
  upstream price of 0.6 for each.\<close>

definition guardedState :: state where
  "guardedState = exState [exDoc ''past'' ''2026-01-01'' 0.5, exDoc ''today'' ''2026-01-02'' 0.5,
                           exDoc ''iso'' ''2026-01-01T00:00:00Z'' 0.5]"

definition guardedUpstream :: "UpstreamMarket list" where
  "guardedUpstream = [exUpstream ''past'' (VNum 0.6), exUpstream ''today'' (VStr ''0.6''),
                      exUpstream ''iso'' (VNum 0.6)]"

section \<open>Properties of the binary64 rounding\<close>

lemma binary64_minus: "binary64 (- x) = - binary64 x"
  by (simp add: binary64_def Let_def sgn_if)

text \<open>Rules that evaluate the rounding of a number given by numerals, and leave it alone
  elsewhere.\<close>

lemmas binary64_ground =
  binary64_def [of 0] binary64_def [of 1] binary64_def [of "numeral a" for a]
  binary64_def [of "1 / numeral b" for b] binary64_def [of "numeral a / numeral b" for a b]

lemmas binary64_eval = js_sub_def binary64_minus binary64_ground binade_def binadeDown.simps
  binadeUp.simps roundHalfEven_def Let_def

text \<open>Some binary64 numbers: the literals \<^verbatim>\<open>0.05\<close>, \<^verbatim>\<open>0.1\<close> and \<^verbatim>\<open>0.001\<close>; two ties
  (\<open>2 ^ 53 + 1\<close> goes down and \<open>2 ^ 53 + 3\<close> goes up, to the even multiple of 2); a
  subnormal tie; the sign.\<close>

lemma binary64_examples:
  "binary64 0.05 = 3602879701896397 / 2 ^ 56"
  "binary64 0.1 = 3602879701896397 / 2 ^ 55"
  "binary64 0.001 = 1152921504606847 / 2 ^ 60"
  "binary64 0.5 = 0.5"
  "binary64 0 = 0"
  "binary64 (2 ^ 53 + 1) = 2 ^ 53"
  "binary64 (2 ^ 53 + 3) = 2 ^ 53 + 4"
  "binary64 (3 / 2 ^ 1075) = 2 / 2 ^ 1074"
  "binary64 (- 0.1) = - (3602879701896397 / 2 ^ 55)"
  by (simp_all add: binary64_eval)

lemma SHOCK_THRESHOLD_value: "SHOCK_THRESHOLD = 3602879701896397 / 2 ^ 56"
  unfolding SHOCK_THRESHOLD_def by (rule binary64_examples)

lemma SHOCK_THRESHOLD_ge: "0.05 \<le> SHOCK_THRESHOLD"
  by (simp add: SHOCK_THRESHOLD_value)

text \<open>Differences of two decimal probabilities as the subtraction yields them. JavaScript
  prints the first four as \<^verbatim>\<open>0.06\<close>, \<^verbatim>\<open>0.03999999999999998\<close>, \<^verbatim>\<open>0.04999999999999999\<close>
  and \<^verbatim>\<open>0.09999999999999998\<close>.\<close>

lemma js_sub_examples:
  "js_sub 0.46 0.40 = 1080863910568919 / 2 ^ 54"
  "js_sub 0.44 0.40 = 720575940379279 / 2 ^ 54"
  "js_sub 0.45 0.40 = 900719925474099 / 2 ^ 54"
  "js_sub 0.6 0.5 = 900719925474099 / 2 ^ 53"
  "js_sub 0.5 0.5 = 0"
  "binary64 0.06 = 1080863910568919 / 2 ^ 54"
  by (simp_all add: binary64_eval)







section \<open>Properties of the shock detector\<close>

lemma shiftOld_dropWhile: "shiftOld c xs = dropWhile (\<lambda>s. timestamp s < c) xs"
  by (induction xs) auto


lemma inWindow_fun: "inWindow c = (\<lambda>s. c \<le> timestamp s)"
  by (rule ext) (simp add: inWindow_def)



text \<open>
  Moves of exactly five points fall between the two bounds, and the rounding decides:
  from 0.40 to 0.45 the computed delta is \<^verbatim>\<open>0.04999999999999999\<close> and there is no shock,
  from 0.50 to 0.55 it is \<^verbatim>\<open>0.050000000000000044\<close> and there is one.
\<close>

lemma detectShock_five_point_moves:
  "detectShock now mid 0.40 0.45 st = (None, st)"
  "\<bar>js_sub 0.45 0.40\<bar> = 900719925474099 / 2 ^ 54"
  "fst (detectShock now mid 0.50 0.55 st) \<noteq> None"
  "\<bar>js_sub 0.55 0.50\<bar> = 450359962737050 / 2 ^ 53"
  by (simp_all add: detectShock_def SHOCK_THRESHOLD_value binary64_eval)

text \<open>
  Claim C4, as amended. \<^verbatim>\<open>checkShockAlert()\<close> returns an alert exactly when at least 5
  retained shocks have a time stamp within the last 15 minutes (not before the current
  time minus 900000 ms). The alert's \<^verbatim>\<open>shockCount\<close> is that number, its \<^verbatim>\<open>shocks\<close> are
  those shocks, its \<^verbatim>\<open>windowEnd\<close> is the current time, and its \<^verbatim>\<open>windowStart\<close> is the
  current time minus 15 minutes, which is not later than any of those shocks. The call
  leaves the retained list as it was.
\<close>

theorem checkShockAlert_window:
  "(fst (checkShockAlert now st) \<noteq> None
      \<longleftrightarrow> 5 \<le> length (filter (\<lambda>s. now - 900000 \<le> timestamp s) st))
   \<and> snd (checkShockAlert now st) = st
   \<and> (\<forall>a. fst (checkShockAlert now st) = Some a \<longrightarrow>
         shockCount a = length (filter (\<lambda>s. now - 900000 \<le> timestamp s) st)
       \<and> shocks a = filter (\<lambda>s. now - 900000 \<le> timestamp s) st
       \<and> windowStart a = now - 900000
       \<and> windowEnd a = now
       \<and> (\<forall>s \<in> set (shocks a). windowStart a \<le> timestamp s))"
  by (auto simp add: checkShockAlert_def SHOCK_COUNT_THRESHOLD_def SHOCK_WINDOW_MS_def
        Let_def inWindow_fun)

theorem checkShockAlert_window_witness:
  "fst (checkShockAlert 1000000 (map (mkShock ''m'') [0, 200000, 300000, 400000, 500000, 600000])) \<noteq> None
   \<and> shockCount (the (fst (checkShockAlert 1000000
        (map (mkShock ''m'') [0, 200000, 300000, 400000, 500000, 600000])))) = 5
   \<and> windowStart (the (fst (checkShockAlert 1000000
        (map (mkShock ''m'') [0, 200000, 300000, 400000, 500000, 600000])))) = 100000
   \<and> fst (checkShockAlert 1000000 (map (mkShock ''m'') [0, 200000, 300000, 400000])) = None"
  using checkShockAlert_window [of 1000000 "map (mkShock ''m'') [0, 200000, 300000, 400000, 500000, 600000]"]
        checkShockAlert_window [of 1000000 "map (mkShock ''m'') [0, 200000, 300000, 400000]"]
  by (auto simp add: mkShock_def)

text \<open>
  Claim C4 as stated has the window run from the oldest qualifying shock's time stamp.
  With five shocks stamped 400000 to 800000 and the clock at 1000000 the alert is raised,
  the oldest qualifying time stamp is 400000, and \<^verbatim>\<open>windowStart\<close> is 100000.
\<close>

theorem checkShockAlert_windowStart_counterexample:
  "fst (checkShockAlert 1000000 (map (mkShock ''m'') [400000, 500000, 600000, 700000, 800000])) \<noteq> None
   \<and> oldestTimestamp (shocks (the (fst (checkShockAlert 1000000
         (map (mkShock ''m'') [400000, 500000, 600000, 700000, 800000]))))) = Some 400000
   \<and> windowStart (the (fst (checkShockAlert 1000000
         (map (mkShock ''m'') [400000, 500000, 600000, 700000, 800000])))) = 100000
   \<and> Some (windowStart (the (fst (checkShockAlert 1000000
         (map (mkShock ''m'') [400000, 500000, 600000, 700000, 800000])))))
       \<noteq> oldestTimestamp (shocks (the (fst (checkShockAlert 1000000
         (map (mkShock ''m'') [400000, 500000, 600000, 700000, 800000])))))"
  by (simp add: checkShockAlert_def SHOCK_COUNT_THRESHOLD_def SHOCK_WINDOW_MS_def
        Let_def inWindow_fun mkShock_def)

subsection \<open>The invariant of the retained list\<close>

lemma set_shiftOld: "set (shiftOld c xs) \<subseteq> set xs"
  by (simp add: shiftOld_dropWhile set_dropWhileD subsetI)

lemma sorted_shiftOld: "sorted (map timestamp xs) \<Longrightarrow> sorted (map timestamp (shiftOld c xs))"
  by (induction xs) auto

lemma shock_inv_shiftOld: "shock_inv xs \<Longrightarrow> shock_inv (shiftOld c xs)"
  using set_shiftOld [of c xs]
  by (auto simp add: shock_inv_def list_all_iff sorted_shiftOld)

lemma bounded_shiftOld: "bounded_by t xs \<Longrightarrow> bounded_by t (shiftOld c xs)"
  using set_shiftOld [of c xs]
  by (auto simp add: bounded_by_def list_all_iff)

lemma bounded_mono: "bounded_by t xs \<Longrightarrow> t \<le> t' \<Longrightarrow> bounded_by t' xs"
  by (auto simp add: bounded_by_def list_all_iff)

lemma shock_inv_push:
  assumes "shock_inv xs" "bounded_by t xs" "shock_ok s" "timestamp s = t"
  shows "shock_inv (xs @ [s])" "bounded_by t (xs @ [s])"
  using assms
  by (auto simp add: shock_inv_def bounded_by_def list_all_iff sorted_append)

lemma shock_step_inv:
  assumes "shock_inv st" "bounded_by t st" "t \<le> now"
  shows "shock_inv (shock_step st (now, c)) \<and> bounded_by now (shock_step st (now, c))"
proof (cases c)
  case (DetectShock mid prev new)
  have b: "bounded_by now st" using assms bounded_mono by blast
  show ?thesis
  proof (cases "\<bar>js_sub new prev\<bar> \<ge> SHOCK_THRESHOLD")
    case True
    define s where "s = \<lparr>marketId = mid, previousProbability = prev, newProbability = new,
                       delta = \<bar>js_sub new prev\<bar>, timestamp = now\<rparr>"
    have ok: "shock_ok s" using True by (simp add: s_def shock_ok_def)
    have ts: "timestamp s = now" by (simp add: s_def)
    have step: "shock_step st (now, c) = shiftOld (now - SHOCK_WINDOW_MS) (st @ [s])"
      using True DetectShock by (simp add: detectShock_def Let_def s_def)
    from shock_inv_push [OF assms(1) b ok ts] show ?thesis
      unfolding step by (simp add: shock_inv_shiftOld bounded_shiftOld)
  next
    case False
    then have "shock_step st (now, c) = st"
      using DetectShock by (simp add: detectShock_def Let_def)
    then show ?thesis using assms b by simp
  qed
next
  case CheckShockAlert
  then have "shock_step st (now, c) = st"
    by (simp add: checkShockAlert_def Let_def)
  then show ?thesis using assms bounded_mono by simp
next
  case CleanupOldShocks
  then show ?thesis using assms bounded_mono
    by (simp add: cleanupOldShocks_def shock_inv_shiftOld bounded_shiftOld)
qed

lemma shock_run_inv:
  "shock_inv st \<Longrightarrow> bounded_by t st \<Longrightarrow> sorted (t # map fst calls) \<Longrightarrow>
     shock_inv (shock_run calls st)"
proof (induction calls arbitrary: st t)
  case Nil
  then show ?case by (simp add: shock_run_def)
next
  case (Cons c calls)
  obtain now k where c: "c = (now, k)" by (cases c)
  have le: "t \<le> now" using Cons.prems(3) c by simp
  have s: "sorted (now # map fst calls)" using Cons.prems(3) c by simp
  from shock_step_inv [OF Cons.prems(1) Cons.prems(2) le, of k]
  have "shock_inv (shock_step st (now, k))" "bounded_by now (shock_step st (now, k))" by simp_all
  from Cons.IH [OF this s] show ?case by (simp add: shock_run_def c)
qed

text \<open>
  Claim C9. Start from the empty list and run any sequence of calls of \<^verbatim>\<open>detectShock\<close>,
  \<^verbatim>\<open>checkShockAlert\<close> and \<^verbatim>\<open>cleanupOldShocks\<close> whose clock readings do not decrease.
  Then every retained shock has \<^verbatim>\<open>delta\<close> equal to the absolute value of the
  difference of its two probabilities, as the subtraction of binary64 numbers yields
  it, at least the threshold, so at least 0.05 and not negative, and the retained list
  is in non-decreasing order of time stamp.
\<close>

theorem shock_window_invariant:
  assumes "sorted (map fst calls)"
  shows "list_all (\<lambda>s. delta s = \<bar>js_sub (newProbability s) (previousProbability s)\<bar>
                        \<and> SHOCK_THRESHOLD \<le> delta s \<and> 0.05 \<le> delta s \<and> 0 \<le> delta s) (shock_run calls [])
         \<and> sorted (map timestamp (shock_run calls []))"
proof (cases calls)
  case Nil
  then show ?thesis by (simp add: shock_run_def)
next
  case (Cons c cs)
  have "shock_inv []" "bounded_by (fst c) []" by (simp_all add: shock_inv_def bounded_by_def)
  moreover have "sorted (fst c # map fst calls)" using assms Cons by simp
  ultimately have "shock_inv (shock_run calls [])" by (rule shock_run_inv)
  then show ?thesis
    using SHOCK_THRESHOLD_ge by (auto simp add: shock_inv_def shock_ok_def list_all_iff)
qed

lemma ex_calls_run: "map timestamp (shock_run ex_calls []) = [600000, 1000000]"
  by (simp add: ex_calls_def shock_run_def detectShock_def checkShockAlert_def cleanupOldShocks_def
      SHOCK_THRESHOLD_value SHOCK_WINDOW_MS_def SHOCK_COUNT_THRESHOLD_def inWindow_def
      binary64_eval)

theorem shock_window_invariant_witness:
  "sorted (map fst ex_calls) \<and> map timestamp (shock_run ex_calls []) = [600000, 1000000]
   \<and> list_all (\<lambda>s. delta s = \<bar>js_sub (newProbability s) (previousProbability s)\<bar>
                        \<and> SHOCK_THRESHOLD \<le> delta s \<and> 0.05 \<le> delta s \<and> 0 \<le> delta s) (shock_run ex_calls [])"
proof -
  have h: "sorted (map fst ex_calls)" by (simp add: ex_calls_def)
  from shock_window_invariant [OF h] h ex_calls_run show ?thesis by simp
qed



section \<open>Properties of the event normaliser\<close>

lemma keepMarket_numeric:
  assumes "volumeOf (gm_volume m) = Some v"
  shows "keepMarket known m \<longleftrightarrow>
           (20000 \<le> v \<and> \<not> gm_closed m \<and> \<not> gm_resolved m
            \<and> 0.01 < priceOrZero (yesPrice m) \<and> priceOrZero (yesPrice m) < 0.99
            \<and> gm_id m \<noteq> None \<and> gm_id m \<noteq> Some [] \<and> the (gm_id m) \<in> known)"
  using assms by (cases "gm_id m") (auto simp add: keepMarket_def strOrEmpty_def)

lemma set_insertBy: "set (insertBy cmp x ys) = insert x (set ys)"
  by (induction ys) auto

lemma set_sortBy: "set (sortBy cmp xs) = set xs"
  by (induction xs) (simp_all add: sortBy_def set_insertBy)

lemma validMarkets_kept: "m \<in> set (validMarkets known ms) \<Longrightarrow> m \<in> set ms \<and> keepMarket known m"
proof -
  assume "m \<in> set (validMarkets known ms)"
  then have "m \<in> set (sortBy volCompare (filter (keepMarket known) ms))"
    unfolding validMarkets_def by (rule in_set_takeD)
  then show ?thesis by (simp add: set_sortBy)
qed

text \<open>The examples of the filter rule: 19999 is too little, 0.01 and 0.99 are outside the
  band, 20000 at 0.5 passes, as does a currency formatted 20000; an unknown id, a closed
  and a resolved market are dropped.\<close>

lemma keepMarket_examples:
  "\<not> keepMarket {''a''} (exMarket ''a'' (VNum 19999) 0.5)
   \<and> \<not> keepMarket {''a''} (exMarket ''a'' (VNum 20000) 0.01)
   \<and> \<not> keepMarket {''a''} (exMarket ''a'' (VNum 20000) 0.99)
   \<and> keepMarket {''a''} (exMarket ''a'' (VNum 20000) 0.5)
   \<and> keepMarket {''a''} (exMarket ''a'' (VStr ''$20,000'') 0.5)
   \<and> \<not> keepMarket {''a''} (exMarket ''a'' (VStr ''$19,999.99'') 0.5)
   \<and> \<not> keepMarket {''b''} (exMarket ''a'' (VNum 20000) 0.5)
   \<and> \<not> keepMarket {''a''} ((exMarket ''a'' (VNum 20000) 0.5)\<lparr>gm_closed := True\<rparr>)
   \<and> \<not> keepMarket {''a''} ((exMarket ''a'' (VNum 20000) 0.5)\<lparr>gm_resolved := True\<rparr>)"
  by (simp add: keepMarket_def exMarket_def priceOrZero_def strOrEmpty_def stripVolume_def
      parseFloat_def parseDecimal_def isSpace_def isDigit_def digitsVal_def digitVal_def scale10_def)

text \<open>
  Claim C3 at the input that breaks it. A sub-market whose volume is the string
  \<^verbatim>\<open>N/A\<close> has no volume of at least 20000: \<^verbatim>\<open>parseFloat\<close> gives \<^verbatim>\<open>NaN\<close>. The test
  \<^verbatim>\<open>volume < 20000\<close> is false for \<^verbatim>\<open>NaN\<close>, so the filter keeps the market, and
  \<^verbatim>\<open>normalizeGammaEvent\<close> returns it with the volume \<^verbatim>\<open>N/A\<close>.
\<close>

theorem keepMarket_unparseable_volume:
  "volumeOf (gm_volume (exMarket ''m1'' (VStr ''N/A'') 0.5)) = None
   \<and> keepMarket {''m1''} (exMarket ''m1'' (VStr ''N/A'') 0.5)
   \<and> map Question (normalizeGammaEvent (exEvent [exMarket ''m1'' (VStr ''N/A'') 0.5]) {''m1''})
       = [''Q-m1'']
   \<and> map Volume (normalizeGammaEvent (exEvent [exMarket ''m1'' (VStr ''N/A'') 0.5]) {''m1''})
       = [VStr ''N/A'']"
  by (simp add: keepMarket_def exMarket_def exEvent_def priceOrZero_def strOrEmpty_def
      listOrEmpty_def stripVolume_def parseFloat_def parseDecimal_def isSpace_def isDigit_def
      normalizeGammaEvent_def validMarkets_def sortBy_def Let_def)

text \<open>The revision of the normaliser that matches by id applies no liquidity, status or
  price band rule: a known market with volume 19999 and price 0.995 is returned.\<close>

lemma normalizeGammaEventById_no_liquidity_filter:
  "map Question (normalizeGammaEventById (exEvent [exMarket ''m1'' (VNum 19999) 0.995]) {''m1''})
     = [''Q-m1'']"
  by (simp add: exMarket_def exEvent_def strOrEmpty_def listOrEmpty_def
      normalizeGammaEventById_def normalizeMarketById_def List.map_filter_def Let_def)

subsection \<open>Ranking and cap\<close>













section \<open>Properties of the single record update\<close>

lemma find_setDoc:
  fixes d :: MarketData
  shows "find (\<lambda>x. md_id x = md_id d) (setDoc d ds) = Some d"
proof -
  have a: "find (\<lambda>x. md_id x = md_id d) (map (\<lambda>x. if md_id x = md_id d then d else x) ds) = Some d"
    if "\<exists>x\<in>set ds. md_id x = md_id d" for ds :: "MarketData list"
    using that by (induction ds) auto
  have b: "find (\<lambda>x. md_id x = md_id d) (ds @ [d]) = Some d"
    if "\<not> (\<exists>x\<in>set ds. md_id x = md_id d)" for ds :: "MarketData list"
    using that by (induction ds) auto
  show ?thesis using a [of ds] b [of ds] by (simp add: setDoc_def list_ex_iff)
qed

text \<open>What a successful \<^verbatim>\<open>updateMarket\<close> of marketUpdater.ts leaves in the price fields
  of the record: the new probability, the probability held before, their difference as
  the subtraction yields it, and the current time, whatever the size of the difference.\<close>

lemma updateMarket_tracking:
  assumes "fst (updateMarket e now mid nm em st)"
  shows "map_option priceTracking (getDoc (md_id em) (docs (snd (updateMarket e now mid nm em st))))
           = Some (Price nm, Some (probability em), Some (js_sub (Price nm) (probability em)), now)"
proof -
  have m: "md_id (mergedUpdate now nm em) = md_id em" by (simp add: mergedUpdate_def)
  from find_setDoc [of "mergedUpdate now nm em" "docs st"] show ?thesis
    using assms
    by (simp add: updateMarket_def Let_def getDoc_def m split: if_splits)
       (simp add: mergedUpdate_def priceTracking_def)
qed

text \<open>The change tracking of the import handler keeps the previous probability and the
  delta of the stored record (the delta rounded to four decimals) when the imported
  probability differs from the stored one by no more than 0.001 (the computed difference
  and the binary64 number written \<^verbatim>\<open>0.001\<close>).\<close>

lemma importChangeTracking_suppresses:
  assumes "\<bar>js_sub p (probability em)\<bar> \<le> binary64 0.001"
  shows "importChangeTracking (Some em) p
           = (md_previousProbability em, toFixed 4 (case changeDelta em of None \<Rightarrow> 0 | Some c \<Rightarrow> c))"
  using assms by (simp add: importChangeTracking_def Let_def)

text \<open>
  Claim C1 at an input that breaks it. The stored record has probability 0.5, previous
  probability 0.40, delta 0.10 and was last updated at 1000. Upstream reports 0.5 again,
  a difference below 0.001. After \<^verbatim>\<open>updateMarket\<close> at time 2000 (either revision) the
  record holds previous probability 0.5 and delta 0: the last genuine change is gone.
  The import handler of the user interface, for the same record and probability, keeps
  0.40 and 0.10.
\<close>

theorem updateMarket_erases_change_record:
  "priceTracking (exDoc ''m1'' ''2026-06-30'' 0.5) = (0.5, Some 0.40, Some 0.10, 1000)
   \<and> \<bar>Price (exNormalized 0.5) - probability (exDoc ''m1'' ''2026-06-30'' 0.5)\<bar> < 0.001
   \<and> map priceTracking (docs (snd (updateMarket (exEnv [] {}) 2000 ''m1'' (exNormalized 0.5)
        (exDoc ''m1'' ''2026-06-30'' 0.5) (exState [exDoc ''m1'' ''2026-06-30'' 0.5]))))
     = [(0.5, Some 0.5, Some 0, 2000)]
   \<and> map priceTracking (docs (snd (updateMarketPriceOnly (exEnv [] {}) 2000 ''m1'' (exNormalized 0.5)
        (exDoc ''m1'' ''2026-06-30'' 0.5) (exState [exDoc ''m1'' ''2026-06-30'' 0.5]))))
     = [(0.5, Some 0.5, Some 0, 2000)]
   \<and> importChangeTracking (Some (exDoc ''m1'' ''2026-06-30'' 0.5)) 0.5 = (Some 0.40, 0.10)"
  by (simp add: exNormalized_def priceTracking_def exEnv_def exState_def exDoc_def
        updateMarket_def mergedUpdate_def setDoc_def detectShock_def SHOCK_THRESHOLD_value
        SHOCK_WINDOW_MS_def updateMarketPriceOnly_def updateDoc_def priceFields_def
        importChangeTracking_def toFixed_def binary64_eval)

text \<open>
  Claim C2 at an input that breaks it. \<^verbatim>\<open>updateMarket\<close> of marketUpdater.ts, given a
  stored record and a normalised upstream market for it, writes the upstream question
  over title and question, the upstream event title over catalyst, the upstream volume,
  end date and tags over volume, resolve date and tags. (The delta of the move from 0.5
  to 0.6 is the binary64 number that JavaScript prints as \<^verbatim>\<open>0.09999999999999998\<close>.)
\<close>

theorem updateMarket_overwrites_descriptive:
  "map descriptive (docs (exState [exDoc ''m1'' ''2026-06-30'' 0.5]))
     = [(''Title m1'', Some ''Imported question m1'', Some ''Imported catalyst'',
         Some (VStr ''$1,000,000''), Some [''macro''], ''2026-06-30'')]
   \<and> updateMarket (exEnv [] {}) 2000 ''m1'' (exNormalized 0.6) (exDoc ''m1'' ''2026-06-30'' 0.5)
        (exState [exDoc ''m1'' ''2026-06-30'' 0.5])
     = (True, \<lparr>recentShocks = [\<lparr>marketId = ''m1'', previousProbability = 0.5,
                                  newProbability = 0.6, delta = 900719925474099 / 2 ^ 53,
                                  timestamp = 2000\<rparr>],
               docs = [(exDoc ''m1'' ''2026-06-30'' 0.5)
                        \<lparr>title := ''Q-m1'', resolveDate := ''2026-12-31'', probability := 0.6,
                         md_previousProbability := Some 0.5,
                         changeDelta := Some (900719925474099 / 2 ^ 53),
                         lastUpdated := 2000, catalyst := Some ''Fed decision'',
                         question := Some ''Q-m1'', volume := Some (VNum 250000),
                         tags := Some [''macro_rates'', ''fed'']\<rparr>],
               shockAlerts = []\<rparr>)
   \<and> map descriptive (docs (snd (updateMarket (exEnv [] {}) 2000 ''m1'' (exNormalized 0.6)
        (exDoc ''m1'' ''2026-06-30'' 0.5) (exState [exDoc ''m1'' ''2026-06-30'' 0.5]))))
     = [(''Q-m1'', Some ''Q-m1'', Some ''Fed decision'', Some (VNum 250000),
         Some [''macro_rates'', ''fed''], ''2026-12-31'')]"
  by (simp add: exNormalized_def descriptive_def exEnv_def exState_def exDoc_def
        updateMarket_def mergedUpdate_def setDoc_def detectShock_def SHOCK_THRESHOLD_value
        SHOCK_WINDOW_MS_def binary64_eval)

text \<open>The revision of \<^verbatim>\<open>updateMarket\<close> that writes the price fields only leaves the descriptive fields of every
  record as they were, and on success sets the four price fields of the record.\<close>

lemma updateMarketPriceOnly_frame:
  "map descriptive (docs (snd (updateMarketPriceOnly e now mid nm em st))) = map descriptive (docs st)"
  by (auto simp add: updateMarketPriceOnly_def updateDoc_def priceFields_def descriptive_def Let_def)

lemma updateMarketPriceOnly_price:
  assumes "fst (updateMarketPriceOnly e now mid nm em st)"
  shows "map_option priceTracking (getDoc (md_id em) (docs (snd (updateMarketPriceOnly e now mid nm em st))))
           = Some (Price nm, Some (probability em), Some (js_sub (Price nm) (probability em)), now)"
proof -
  have ex: "list_ex (\<lambda>x. md_id x = md_id em) (docs st)"
    using assms by (simp add: updateMarketPriceOnly_def updateDoc_def Let_def split: if_splits)
  then obtain d where d: "find (\<lambda>x. md_id x = md_id em) (docs st) = Some d"
    by (cases "find (\<lambda>x. md_id x = md_id em) (docs st)") (auto simp add: list_ex_iff find_None_iff)
  have "find (\<lambda>x. md_id x = i) (map (\<lambda>x. if md_id x = i then f x else x) ds)
          = map_option f (find (\<lambda>x. md_id x = i) ds)"
    if "\<And>x. md_id (f x) = md_id x" for i f and ds :: "MarketData list"
    using that by (induction ds) auto
  from this [of "priceFields now nm em" "md_id em" "docs st"]
  show ?thesis
    using assms ex d
    by (simp add: updateMarketPriceOnly_def updateDoc_def Let_def getDoc_def priceFields_def
        priceTracking_def split: if_splits)
qed

section \<open>Properties of the reconciliation cycle\<close>

lemma updateMarket_ok: "fst (updateMarket e now mid nm em st) = writeSucceeds e em"
  by (simp add: updateMarket_def Let_def writeSucceeds_def)

lemma processNormalized_counters:
  "res_updated (fst (processNormalized e now snap (r, st) nm))
     = res_updated r + length (filter (writeSucceeds e) (attemptsOf snap [nm]))
   \<and> res_errors (fst (processNormalized e now snap (r, st) nm))
     = res_errors r + length (filter (writeFails e) (attemptsOf snap [nm]))"
proof (cases "matchOf snap nm")
  case None
  then show ?thesis
    by (auto simp add: processNormalized_def matchOf_def attemptsOf_def split: option.splits)
next
  case (Some em)
  then obtain k where k: "nm_marketId nm = Some k" "lookupMarket snap k = Some em"
    by (auto simp add: matchOf_def split: option.splits)
  have a: "attemptsOf snap [nm] = [em]"
    using Some by (simp add: attemptsOf_def)
  obtain ok st' where u: "updateMarket e now (md_id em) nm em st = (ok, st')"
    by (cases "updateMarket e now (md_id em) nm em st")
  have ok: "ok = writeSucceeds e em" using updateMarket_ok [of e now "md_id em" nm em st] u by simp
  show ?thesis
    unfolding a using k u ok
    by (simp add: processNormalized_def Let_def writeFails_def)
qed

lemma attemptsOf_append: "attemptsOf snap (xs @ ys) = attemptsOf snap xs @ attemptsOf snap ys"
  by (simp add: attemptsOf_def List.map_filter_def)

lemma attemptsOf_Cons: "attemptsOf snap (x # xs) = attemptsOf snap [x] @ attemptsOf snap xs"
  using attemptsOf_append [of snap "[x]" xs] by simp

lemma foldl_processNormalized_counters:
  "res_updated (fst (foldl (processNormalized e now snap) rs nms))
     = res_updated (fst rs) + length (filter (writeSucceeds e) (attemptsOf snap nms))
   \<and> res_errors (fst (foldl (processNormalized e now snap) rs nms))
     = res_errors (fst rs) + length (filter (writeFails e) (attemptsOf snap nms))"
proof (induction nms arbitrary: rs)
  case Nil
  then show ?case by (simp add: attemptsOf_def)
next
  case (Cons nm nms)
  obtain r st where rs: "rs = (r, st)" by (cases rs)
  from processNormalized_counters [of e now snap r st nm] Cons.IH [of "processNormalized e now snap rs nm"]
  show ?case
    unfolding attemptsOf_Cons [of snap nm nms] by (simp add: rs)
qed

lemma processEvent_counters:
  "res_updated (fst (processEvent e now ids snap rs ev))
     = res_updated (fst rs) + length (filter (writeSucceeds e) (attemptsOf snap (normalizedOf ids ev)))
   \<and> res_errors (fst (processEvent e now ids snap rs ev))
     = res_errors (fst rs) + length (filter (writeFails e) (attemptsOf snap (normalizedOf ids ev)))
       + length (filter isNullItem [ev])"
proof (cases ev)
  case NullItem
  then show ?thesis
    by (cases rs) (simp add: processEvent_def processEvent_try_def isNullItem_def attemptsOf_def)
next
  case (EventItem x)
  then show ?thesis
    using foldl_processNormalized_counters [of e now snap rs "normalizeGammaEventById x ids"]
    by (simp add: processEvent_def processEvent_try_def isNullItem_def)
qed

lemma foldl_processEvent_counters:
  "res_updated (fst (foldl (processEvent e now ids snap) rs evs))
     = res_updated (fst rs)
       + length (filter (writeSucceeds e) (attemptsOf snap (concat (map (normalizedOf ids) evs))))
   \<and> res_errors (fst (foldl (processEvent e now ids snap) rs evs))
     = res_errors (fst rs)
       + length (filter (writeFails e) (attemptsOf snap (concat (map (normalizedOf ids) evs))))
       + length (filter isNullItem evs)"
proof (induction evs arbitrary: rs)
  case Nil
  then show ?case by (simp add: attemptsOf_def)
next
  case (Cons ev evs)
  from processEvent_counters [of e now ids snap rs ev] Cons.IH [of "processEvent e now ids snap rs ev"]
  show ?case by (simp add: attemptsOf_append)
qed

lemma ids_after_cleanup:
  "getExistingMarketIds e (st\<lparr>recentShocks := x\<rparr>) = getExistingMarketIds e st"
  by (simp add: getExistingMarketIds_def)

lemma ids_nonempty_dbOk: "getExistingMarketIds e st \<noteq> [] \<Longrightarrow> dbOk e"
  by (simp add: getExistingMarketIds_def split: if_splits)

lemma updateMarkets_try_normal:
  "marketsQueryOk e \<Longrightarrow> alertWriteOk e \<Longrightarrow> fst (updateMarkets_try e now st) = Normal"
  using ids_nonempty_dbOk [of e "st\<lparr>recentShocks := cleanupOldShocks now (recentShocks st)\<rparr>"]
  by (auto simp add: updateMarkets_try_def Let_def split: option.splits prod.splits)

text \<open>
  Claim C8. \<^verbatim>\<open>updateMarkets\<close> always completes normally and returns its three counters; an
  exception of its \<^verbatim>\<open>try\<close> block (a failed query, a failed write of the alert) is counted
  as one error. When the cycle gets as far as its loop, every record matched by a
  normalised upstream market is attempted: \<^verbatim>\<open>updated\<close> is the number of attempts whose
  write succeeds, and \<^verbatim>\<open>errors\<close> is the number of attempts whose write fails plus the
  number of upstream entries on which the normaliser throws, plus one if the block
  throws. No failure of one record or entry stops the others from being processed.
\<close>

theorem updateMarkets_never_throws:
  "fst (updateMarkets e now st) = Normal
   \<and> res_updated (fst (snd (updateMarkets e now st)))
       = (if loopReached e st then length (filter (writeSucceeds e) (cycleAttempts e st)) else 0)
   \<and> res_errors (fst (snd (updateMarkets e now st)))
       = (if loopReached e st
          then length (filter (writeFails e) (cycleAttempts e st))
               + length (filter isNullItem (gammaEvents e))
          else 0)
         + (if fst (updateMarkets_try e now st) = Throw then 1 else 0)"
proof -
  define st1 where "st1 = st\<lparr>recentShocks := cleanupOldShocks now (recentShocks st)\<rparr>"
  define ids where "ids = getExistingMarketIds e st"
  have ids1: "getExistingMarketIds e st1 = ids" by (simp add: st1_def ids_def ids_after_cleanup)
  have d1: "docs st1 = docs st" by (simp add: st1_def)
  define r0 where "r0 = \<lparr>res_updated = 0, res_errors = 0, res_shocks = 0\<rparr>"
  define loop where "loop = foldl (processEvent e now (set ids) (docs st)) (r0, st1) (gammaEvents e)"
  have cnt: "res_updated (fst loop) = length (filter (writeSucceeds e) (cycleAttempts e st))"
            "res_errors (fst loop) = length (filter (writeFails e) (cycleAttempts e st))
                                      + length (filter isNullItem (gammaEvents e))"
    using foldl_processEvent_counters [of e now "set ids" "docs st" "(r0, st1)" "gammaEvents e"]
    by (simp_all add: loop_def cycleAttempts_def ids_def r0_def)
  have n: "fst (updateMarkets e now st) = Normal"
    by (cases "updateMarkets_try e now st" rule: prod_cases3;
        cases "fst (updateMarkets_try e now st)")
       (auto simp add: updateMarkets_def)
  show ?thesis
  proof (cases "ids = []")
    case True
    then have "updateMarkets_try e now st = (Normal, r0, st1)"
      using ids1 by (simp add: updateMarkets_try_def Let_def st1_def r0_def)
    then show ?thesis using True
      by (simp add: updateMarkets_def loopReached_def ids_def r0_def)
  next
    case False
    then have db: "dbOk e" using ids_nonempty_dbOk ids_def by blast
    show ?thesis
    proof (cases "marketsQueryOk e")
      case q: False
      then have "updateMarkets_try e now st = (Throw, r0, st1)"
        using ids1 False db by (simp add: updateMarkets_try_def Let_def st1_def r0_def)
      then show ?thesis using q
        by (simp add: updateMarkets_def loopReached_def r0_def)
    next
      case q: True
      have lr: "loopReached e st" using False q by (simp add: loopReached_def ids_def)
      show ?thesis
      proof (cases "gammaEvents e = []")
        case True
        then have "updateMarkets_try e now st = (Normal, r0, st1)"
          using ids1 False db q by (simp add: updateMarkets_try_def Let_def st1_def r0_def)
        then show ?thesis using lr True
          by (simp add: updateMarkets_def r0_def cycleAttempts_def attemptsOf_def)
      next
        case ev: False
        obtain r st2 where l: "loop = (r, st2)" by (cases loop)
        have t: "updateMarkets_try e now st =
                   (case fst (checkShockAlert now (recentShocks st2)) of
                      None \<Rightarrow> (Normal, r, st2)
                    | Some alert \<Rightarrow>
                        if alertWriteOk e
                        then (Normal, r, st2\<lparr>shockAlerts := setAlert alert (shockAlerts st2)\<rparr>)
                        else (Throw, r, st2))"
          using ids1 d1 False db q ev l
          by (simp add: updateMarkets_try_def Let_def st1_def [symmetric] r0_def [symmetric]
              loop_def [symmetric])
        show ?thesis
          using cnt lr n unfolding l
          by (auto simp add: updateMarkets_def t split: option.splits)
      qed
    qed
  qed
qed

text \<open>Five matched records, the write of the third rejected: four are updated and the
  error counter reads 1.\<close>

theorem updateMarkets_never_throws_witness:
  "loopReached fiveEnv fiveState
   \<and> map md_id (cycleAttempts fiveEnv fiveState) = [''a'', ''b'', ''c'', ''d'', ''e'']
   \<and> filter (writeFails fiveEnv) (cycleAttempts fiveEnv fiveState) = [exDoc ''c'' ''2026-06-30'' 0.5]
   \<and> fst (updateMarkets fiveEnv 2000 fiveState) = Normal
   \<and> res_updated (fst (snd (updateMarkets fiveEnv 2000 fiveState))) = 4
   \<and> res_errors (fst (snd (updateMarkets fiveEnv 2000 fiveState))) = 1"
proof -
  have ids: "getExistingMarketIds fiveEnv fiveState = [''a'', ''b'', ''c'', ''d'', ''e'']"
    by (simp add: fiveEnv_def fiveState_def exEnv_def exState_def exDoc_def
        getExistingMarketIds_def idsOfDoc_def strOrEmpty_def)
  have l: "loopReached fiveEnv fiveState"
    by (simp add: loopReached_def ids) (simp add: fiveEnv_def exEnv_def)
  have a: "cycleAttempts fiveEnv fiveState = docs fiveState"
    unfolding cycleAttempts_def ids
    by (simp add: fiveEnv_def fiveState_def exEnv_def exState_def exDoc_def exEvent_def exMarket_def
        attemptsOf_def matchOf_def lookupMarket_def List.map_filter_def
        normalizeGammaEventById_def normalizeMarketById_def strOrEmpty_def listOrEmpty_def Let_def)
  have d: "docs fiveState = [exDoc ''a'' ''2026-06-30'' 0.5, exDoc ''b'' ''2026-06-30'' 0.5,
                        exDoc ''c'' ''2026-06-30'' 0.5, exDoc ''d'' ''2026-06-30'' 0.5,
                        exDoc ''e'' ''2026-06-30'' 0.5]"
    by (simp add: fiveState_def exState_def)
  have f: "filter (writeFails fiveEnv) (cycleAttempts fiveEnv fiveState) = [exDoc ''c'' ''2026-06-30'' 0.5]"
    unfolding a d by (simp add: writeFails_def writeSucceeds_def fiveEnv_def exEnv_def exDoc_def)
  have s: "length (filter (writeSucceeds fiveEnv) (cycleAttempts fiveEnv fiveState)) = 4"
    unfolding a d by (simp add: writeFails_def writeSucceeds_def fiveEnv_def exEnv_def exDoc_def)
  have n: "filter isNullItem (gammaEvents fiveEnv) = []"
    by (simp add: fiveEnv_def exEnv_def isNullItem_def)
  have t: "fst (updateMarkets_try fiveEnv 2000 fiveState) = Normal"
    by (rule updateMarkets_try_normal) (simp_all add: fiveEnv_def exEnv_def)
  have m: "map md_id (cycleAttempts fiveEnv fiveState) = [''a'', ''b'', ''c'', ''d'', ''e'']"
    unfolding a d by (simp add: exDoc_def)
  from updateMarkets_never_throws [of fiveEnv 2000 fiveState] l f s n t m
  show ?thesis by simp
qed

lemmas cycle_eval =
  exEnv_def exState_def exDoc_def exEvent_def exMarket_def
  getExistingMarketIds_def idsOfDoc_def strOrEmpty_def listOrEmpty_def
  normalizeGammaEventById_def normalizeMarketById_def tagsToString_def tagName_def
  collapseSpaces_def lowerChar_def toFixed_def List.map_filter_def
  processEvent_def processEvent_try_def processNormalized_def lookupMarket_def
  updateMarket_def mergedUpdate_def setDoc_def detectShock_def checkShockAlert_def
  cleanupOldShocks_def SHOCK_THRESHOLD_value SHOCK_WINDOW_MS_def SHOCK_COUNT_THRESHOLD_def
  inWindow_def updateMarkets_try_def updateMarkets_def binary64_eval

text \<open>In that cycle the four other records carry the upstream probabilities afterwards,
  and the record whose write was rejected keeps its own.\<close>

lemma partial_failure_resilience:
  "map (\<lambda>d. (md_id d, probability d)) (docs (snd (snd (updateMarkets fiveEnv 2000 fiveState))))
     = [(''a'', 0.51), (''b'', 0.52), (''c'', 0.5), (''d'', 0.54), (''e'', 0.55)]"
  by (simp add: fiveEnv_def fiveState_def cycle_eval)

text \<open>
  Claim C6 at an input that breaks it. The stored record resolved on 2026-01-01 and holds
  probability 0.5. The cycle of marketUpdater.ts runs on 2026-01-02 at 12:00 UTC, when
  that date is past in every time zone, and upstream reports 0.6 for the record's id.
  The cycle counts one update and the record holds 0.6 afterwards.
\<close>

theorem updateMarkets_overwrites_past_dated:
  "map (\<lambda>d. (md_id d, resolveDate d, probability d)) (docs pastState) = [(''m1'', ''2026-01-01'', 0.5)]
   \<and> map (\<lambda>d. (md_id d, probability d)) (docs (snd (snd (updateMarkets pastEnv 1767355200000 pastState))))
       = [(''m1'', 0.6)]
   \<and> fst (snd (updateMarkets pastEnv 1767355200000 pastState))
       = \<lparr>res_updated = 1, res_errors = 0, res_shocks = 1\<rparr>"
  by (simp add: pastEnv_def pastState_def cycle_eval)

section \<open>Properties of the revision with the resolve date guard\<close>

text \<open>A plain date counts as past from the day after it, an instant once it is before the
  current instant; a date that cannot be read does not count as past.\<close>

lemma recordResolved_examples:
  "recordResolved exDateParse exClock (exDoc ''past'' ''2026-01-01'' 0.5)
   \<and> \<not> recordResolved exDateParse exClock (exDoc ''today'' ''2026-01-02'' 0.5)
   \<and> \<not> recordResolved exDateParse exClock (exDoc ''later'' ''2026-03-01'' 0.5)
   \<and> recordResolved exDateParse exClock (exDoc ''y'' ''2025-12-31'' 0.5)
   \<and> recordResolved exDateParse exClock (exDoc ''iso'' ''2026-01-01T00:00:00Z'' 0.5)
   \<and> \<not> recordResolved exDateParse exClock (exDoc ''bad'' ''31/12/2020'' 0.5)"
  by (simp add: recordResolved_def isMarketResolved_def exDoc_def exClock_def exDateParse_def
      strOrEmpty_def isDateOnly_def isDigit_def digitsVal_def digitVal_def localDay_def
      makeDay_def daysBeforeYear_def daysBeforeMonth_def isLeapYear_def Let_def)

lemma updateDoc_other:
  assumes "updateDoc j f ds = Some ds'" "i \<noteq> j" "\<And>x. md_id (f x) = md_id x"
  shows "filter (\<lambda>x. md_id x = i) ds' = filter (\<lambda>x. md_id x = i) ds"
proof -
  have "filter (\<lambda>x. md_id x = i) (map (\<lambda>x. if md_id x = j then f x else x) ds)
          = filter (\<lambda>x. md_id x = i) ds"
    using assms(2,3) by (induction ds) auto
  then show ?thesis using assms(1) by (auto simp add: updateDoc_def split: if_splits)
qed

lemma updateMarketPriceOnly_other:
  assumes "i \<noteq> md_id em"
  shows "filter (\<lambda>x. md_id x = i) (docs (snd (updateMarketPriceOnly e now mid nm em st)))
           = filter (\<lambda>x. md_id x = i) (docs st)"
proof (cases "updateDoc (md_id em) (priceFields now nm em) (docs st)")
  case None
  then show ?thesis by (simp add: updateMarketPriceOnly_def Let_def)
next
  case (Some ds')
  have "filter (\<lambda>x. md_id x = i) ds' = filter (\<lambda>x. md_id x = i) (docs st)"
    using Some assms by (rule updateDoc_other) (simp add: priceFields_def)
  then show ?thesis using Some by (simp add: updateMarketPriceOnly_def Let_def)
qed

lemma find_in_set: "List.find P xs = Some x \<Longrightarrow> x \<in> set xs"
  by (induction xs) (auto split: if_splits)

lemma lookupByExternalId_in: "lookupByExternalId snapshot k = Some em \<Longrightarrow> em \<in> set snapshot"
  using find_in_set [of _ "rev snapshot" em] by (simp add: lookupByExternalId_def)

lemma processMarketId_state:
  assumes "lookupByExternalId snapshot mid = Some em"
  shows "snd (processMarketId e dateParse clk snapshot gms rs mid) = snd rs
         \<or> (\<not> recordResolved dateParse clk em
            \<and> (\<exists>nm. snd (processMarketId e dateParse clk snapshot gms rs mid)
                  = snd (updateMarketPriceOnly e (nowMs clk) (md_id em) nm em (snd rs))))"
proof (cases "md_id em = [] \<or> recordResolved dateParse clk em")
  case True
  then show ?thesis using assms by (auto simp add: processMarketId_def)
next
  case False
  show ?thesis
  proof (cases "lookupUpstream gms mid")
    case None
    then show ?thesis using assms False by (simp add: processMarketId_def)
  next
    case (Some gm)
    define priceNum where "priceNum = (case priceValue gm of None \<Rightarrow> None | Some v \<Rightarrow> toNumber v)"
    define nm where "nm = normalizedFor mid gm em
                            (if validPrice priceNum then the priceNum else probability em)"
    have "snd (processMarketId e dateParse clk snapshot gms rs mid) = snd rs
          \<or> snd (processMarketId e dateParse clk snapshot gms rs mid)
              = snd (updateMarketPriceOnly e (nowMs clk) (md_id em) nm em (snd rs))"
      using assms False Some
      by (simp add: processMarketId_def Let_def case_prod_beta priceNum_def [symmetric]
          nm_def [symmetric])
    then show ?thesis using False by blast
  qed
qed

lemma processMarketId_keeps:
  assumes "list_all (\<lambda>em. md_id em = i \<longrightarrow> recordResolved dateParse clk em) snapshot"
  shows "filter (\<lambda>x. md_id x = i) (docs (snd (processMarketId e dateParse clk snapshot gms rs mid)))
           = filter (\<lambda>x. md_id x = i) (docs (snd rs))"
proof (cases "lookupByExternalId snapshot mid")
  case None
  then show ?thesis by (simp add: processMarketId_def)
next
  case (Some em)
  then have "em \<in> set snapshot" by (rule lookupByExternalId_in)
  then have r: "md_id em = i \<Longrightarrow> recordResolved dateParse clk em"
    using assms by (simp add: list_all_iff)
  from processMarketId_state [OF Some, of e dateParse clk gms rs]
  show ?thesis
  proof
    assume "snd (processMarketId e dateParse clk snapshot gms rs mid) = snd rs"
    then show ?thesis by simp
  next
    assume a: "\<not> recordResolved dateParse clk em
            \<and> (\<exists>nm. snd (processMarketId e dateParse clk snapshot gms rs mid)
                  = snd (updateMarketPriceOnly e (nowMs clk) (md_id em) nm em (snd rs)))"
    then have ne: "i \<noteq> md_id em" using r by blast
    from a obtain nm where "snd (processMarketId e dateParse clk snapshot gms rs mid)
                  = snd (updateMarketPriceOnly e (nowMs clk) (md_id em) nm em (snd rs))" by blast
    then show ?thesis using updateMarketPriceOnly_other [OF ne] by simp
  qed
qed

lemma foldl_processMarketId_keeps:
  assumes "list_all (\<lambda>em. md_id em = i \<longrightarrow> recordResolved dateParse clk em) snapshot"
  shows "filter (\<lambda>x. md_id x = i) (docs (snd (foldl (processMarketId e dateParse clk snapshot gms) rs mids)))
           = filter (\<lambda>x. md_id x = i) (docs (snd rs))"
proof (induction mids arbitrary: rs)
  case Nil
  then show ?case by simp
next
  case (Cons mid mids)
  show ?case
    using Cons.IH [of "processMarketId e dateParse clk snapshot gms rs mid"]
          processMarketId_keeps [OF assms, of e gms rs mid]
    by simp
qed

lemma updateMarketsById_keeps:
  assumes "list_all (\<lambda>em. md_id em = i \<longrightarrow> recordResolved dateParse clk em) (docs st)"
  shows "filter (\<lambda>x. md_id x = i) (docs (snd (snd (updateMarketsById e gms dateParse clk st))))
           = filter (\<lambda>x. md_id x = i) (docs st)"
proof -
  define st1 where "st1 = st\<lparr>recentShocks := cleanupOldShocks (nowMs clk) (recentShocks st)\<rparr>"
  define r0 where "r0 = \<lparr>res_updated = 0, res_errors = 0, res_shocks = 0\<rparr>"
  define loop where "loop = foldl (processMarketId e dateParse clk (docs st1) gms) (r0, st1)
                              (getExistingMarketIdsById e st1)"
  have d1: "docs st1 = docs st" by (simp add: st1_def)
  have k: "filter (\<lambda>x. md_id x = i) (docs (snd loop)) = filter (\<lambda>x. md_id x = i) (docs st)"
    using foldl_processMarketId_keeps [of i dateParse clk "docs st1" e gms "(r0, st1)"
            "getExistingMarketIdsById e st1"] assms
    by (simp add: loop_def d1)
  have "docs (snd (snd (updateMarketsById_try e gms dateParse clk st))) = docs st
        \<or> docs (snd (snd (updateMarketsById_try e gms dateParse clk st))) = docs (snd loop)"
    unfolding loop_def using d1
    by (auto simp add: updateMarketsById_try_def Let_def st1_def [symmetric] r0_def [symmetric]
        case_prod_beta split: option.splits)
  moreover have "docs (snd (snd (updateMarketsById e gms dateParse clk st)))
                   = docs (snd (snd (updateMarketsById_try e gms dateParse clk st)))"
    by (cases "updateMarketsById_try e gms dateParse clk st" rule: prod_cases3;
        cases "fst (updateMarketsById_try e gms dateParse clk st)")
       (auto simp add: updateMarketsById_def)
  ultimately show ?thesis using k by auto
qed

lemma find_via_filter:
  "List.find P xs = (case filter P xs of [] \<Rightarrow> None | x # ys \<Rightarrow> Some x)"
  by (induction xs) auto

lemma filter_key_distinct:
  "distinct (map f xs) \<Longrightarrow> d \<in> set xs \<Longrightarrow> filter (\<lambda>x. f x = f d) xs = [d]"
proof (induction xs)
  case Nil
  then show ?case by simp
next
  case (Cons x xs)
  show ?case
  proof (cases "x = d")
    case True
    then have "f d \<notin> f ` set xs" using Cons.prems(1) by simp
    then have "filter (\<lambda>x. f x = f d) xs = []"
      by (metis (mono_tags, lifting) filter_False image_eqI)
    then show ?thesis using True by simp
  next
    case False
    then have "d \<in> set xs" using Cons.prems(2) by simp
    moreover have "f x \<noteq> f d" using Cons.prems(1) calculation by auto
    ultimately show ?thesis using Cons by simp
  qed
qed

text \<open>
  Past date protection in the revision with the guard. When the documents have distinct
  ids, a record that \<^verbatim>\<open>isMarketResolved\<close> reports as resolved is, after the cycle, exactly
  the record it was, whatever upstream returned and whichever writes failed.
\<close>

lemma guarded_cycle_freezes_resolved:
  assumes "distinct (map md_id (docs st))" "d \<in> set (docs st)" "recordResolved dateParse clk d"
  shows "getDoc (md_id d) (docs (snd (snd (updateMarketsById e gms dateParse clk st)))) = Some d"
proof -
  have f: "filter (\<lambda>x. md_id x = md_id d) (docs st) = [d]"
    using assms(1,2) by (rule filter_key_distinct)
  have "x = d" if "x \<in> set (docs st)" "md_id x = md_id d" for x
  proof -
    have "x \<in> set (filter (\<lambda>x. md_id x = md_id d) (docs st))" using that by simp
    then show ?thesis unfolding f by simp
  qed
  then have a: "list_all (\<lambda>em. md_id em = md_id d \<longrightarrow> recordResolved dateParse clk em) (docs st)"
    using assms(3) by (auto simp add: list_all_iff)
  from updateMarketsById_keeps [OF a, of e gms] f
  show ?thesis by (simp add: getDoc_def find_via_filter)
qed

text \<open>On 2 January 2026 the record that resolved on 1 January keeps its probability, as does
  the one that resolved at midnight UTC of 1 January; the record resolving on 2 January
  takes the upstream price.\<close>

lemma guarded_cycle_example:
  "map (\<lambda>d. (md_id d, resolveDate d, probability d))
       (docs (snd (snd (updateMarketsById (exEnv [] {}) guardedUpstream exDateParse exClock guardedState))))
     = [(''past'', ''2026-01-01'', 0.5), (''today'', ''2026-01-02'', 0.6),
        (''iso'', ''2026-01-01T00:00:00Z'', 0.5)]
   \<and> fst (snd (updateMarketsById (exEnv [] {}) guardedUpstream exDateParse exClock guardedState))
     = \<lparr>res_updated = 1, res_errors = 0, res_shocks = 1\<rparr>"
  by (simp add: guardedState_def guardedUpstream_def exUpstream_def exEnv_def exState_def exDoc_def
      exClock_def exDateParse_def updateMarketsById_def updateMarketsById_try_def
      getExistingMarketIdsById_def externalIdOrGamma_def externalId_def firstOccurrences_def
      processMarketId_def lookupByExternalId_def lookupUpstream_def recordResolved_def
      isMarketResolved_def isDateOnly_def isDigit_def isSpace_def digitsVal_def digitVal_def localDay_def
      makeDay_def daysBeforeYear_def daysBeforeMonth_def isLeapYear_def strOrEmpty_def listOrEmpty_def
      priceValue_def validPrice_def numberOfString_def trim_def parseDecimal_def scale10_def
      normalizedFor_def toFixed_def updateMarketPriceOnly_def updateDoc_def priceFields_def
      detectShock_def checkShockAlert_def cleanupOldShocks_def SHOCK_THRESHOLD_value
      SHOCK_WINDOW_MS_def SHOCK_COUNT_THRESHOLD_def inWindow_def binary64_eval)

end
